theory Spec2Isabelle
  imports Main
begin

section \<open>League WebSocket handlers: connection registry and timer broadcast\<close>

text \<open>
  The handlers \<open>connect\<close>, \<open>disconnect\<close>, \<open>joinLeague\<close> and \<open>timerUpdate\<close> of the
  WebSocket source file, embedded with explicit state passing. The DynamoDB table
  \<open>CONNECTIONS_TABLE\<close> and the console are the state; the behaviour of the store and of
  the API Gateway management endpoint during one invocation (which call fails, and how)
  is an explicit environment. Every \<open>try\<close>/\<open>catch\<close> of the source is a branch of the
  model. A query is taken to return its whole partition in one page, and the constructor
  of the management client is taken not to throw.
\<close>

subsection \<open>Data\<close>

text \<open>The item written by \<open>joinLeague\<close>: partition key \<open>leagueId\<close>, sort key \<open>connectionId\<close>.\<close>

record Connection =
  leagueId :: string
  connectionId :: string
  sessionId :: string
  isCreator :: bool
  connectedAt :: string

record TimerState =
  timerEndTime :: "int option"
  timerRemainingSeconds :: int
  timerPresetMinutes :: int
  timerIsRunning :: bool

text \<open>
  A value that \<open>JSON.parse\<close> yields. The cast of the body to
  \<open>{ leagueId: string; timerState: TimerState }\<close> checks nothing at run time, so the
  \<open>timerState\<close> that \<open>timerUpdate\<close> tests and sends on is any such value. Numbers are
  taken to be integers.
\<close>

datatype json =
    JNull
  | JBool bool
  | JNumber int
  | JString string
  | JArray "json list"
  | JObject "(string \<times> json) list"

text \<open>A timer state of the interface, as the JSON object a client sends.\<close>

definition timerStateJson :: "TimerState \<Rightarrow> json" where
  "timerStateJson s =
     JObject
       [(''timerEndTime'', case timerEndTime s of None \<Rightarrow> JNull | Some n \<Rightarrow> JNumber n),
        (''timerRemainingSeconds'', JNumber (timerRemainingSeconds s)),
        (''timerPresetMinutes'', JNumber (timerPresetMinutes s)),
        (''timerIsRunning'', JBool (timerIsRunning s))]"

text \<open>The broadcast message \<open>{ type: 'timerUpdate', timerState }\<close>.\<close>

datatype Message = TimerUpdateMessage json

text \<open>
  \<open>JSON.parse(event.body || '{}')\<close> followed by the destructuring either throws inside the
  handler's \<open>try\<close> block (a body that is not JSON, or is the JSON \<open>null\<close>), or yields the
  fields of the body. A field is \<open>None\<close> when it is absent; an absent or empty body has
  every field \<open>None\<close>. A \<open>leagueId\<close> and a \<open>sessionId\<close> are strings, as the keys and
  attributes of the table are, and \<open>None\<close> when \<open>null\<close>; \<open>isCreator\<close> is a boolean; the
  \<open>timerState\<close> is any JSON value.
\<close>

datatype 'b parsed = Throws | Parsed 'b

record JoinBody =
  join_leagueId :: "string option"
  join_sessionId :: "string option"
  join_isCreator :: "bool option"

record TimerUpdateBody =
  timer_leagueId :: "string option"
  timer_timerState :: "json option"

record 'b event =
  requestConnectionId :: string
  eventBody :: "'b parsed"

record APIGatewayProxyResult =
  statusCode :: nat
  body :: string

text \<open>What a handler does to the outside world, in the order it does it.\<close>

datatype effect =
    QueryCommand string
  | PutCommand Connection
  | DeleteCommand string string
  | PostToConnectionCommand string Message
  | ConsoleLog string
  | ConsoleError string

record world =
  table :: "Connection list"
  trace :: "effect list"

text \<open>
  The outcome of \<open>apiGateway.send\<close>: it resolves, or it throws an error whose
  \<open>$metadata?.httpStatusCode\<close> is some number or undefined.
\<close>

datatype send_result = Sent | SendError "nat option"

record env =
  postOutcome :: "string \<Rightarrow> send_result"
  queryFails :: bool
  putFails :: bool
  deleteFails :: "string \<Rightarrow> bool"
  now :: string

subsection \<open>Console and store\<close>

definition console_log :: "string \<Rightarrow> world \<Rightarrow> world" where
  "console_log s w = w\<lparr>trace := trace w @ [ConsoleLog s]\<rparr>"

definition console_error :: "string \<Rightarrow> world \<Rightarrow> world" where
  "console_error s w = w\<lparr>trace := trace w @ [ConsoleError s]\<rparr>"

definition same_key :: "string \<Rightarrow> string \<Rightarrow> Connection \<Rightarrow> bool" where
  "same_key lid cid c = (leagueId c = lid \<and> connectionId c = cid)"

text \<open>\<open>PutCommand\<close>: the item replaces the one with its key. \<open>None\<close> is a thrown store error.\<close>

definition docPut :: "env \<Rightarrow> Connection \<Rightarrow> world \<Rightarrow> unit option \<times> world" where
  "docPut e item w =
     (let w1 = w\<lparr>trace := trace w @ [PutCommand item]\<rparr>
      in if putFails e then (None, w1)
         else (Some (),
               w1\<lparr>table :=
                 filter (\<lambda>c. \<not> same_key (leagueId item) (connectionId item) c) (table w1)
                 @ [item]\<rparr>))"

text \<open>\<open>QueryCommand\<close> with \<open>leagueId = :leagueId\<close>: the items of the partition.\<close>

definition docQuery :: "env \<Rightarrow> string \<Rightarrow> world \<Rightarrow> Connection list option \<times> world" where
  "docQuery e lid w =
     (let w1 = w\<lparr>trace := trace w @ [QueryCommand lid]\<rparr>
      in if queryFails e then (None, w1)
         else (Some (filter (\<lambda>c. leagueId c = lid) (table w1)), w1))"

text \<open>\<open>DeleteCommand\<close>: deleting an absent key changes nothing.\<close>

definition docDelete :: "env \<Rightarrow> string \<Rightarrow> string \<Rightarrow> world \<Rightarrow> unit option \<times> world" where
  "docDelete e lid cid w =
     (let w1 = w\<lparr>trace := trace w @ [DeleteCommand lid cid]\<rparr>
      in if deleteFails e cid then (None, w1)
         else (Some (), w1\<lparr>table := filter (\<lambda>c. \<not> same_key lid cid c) (table w1)\<rparr>))"

subsection \<open>Helpers of the embedding\<close>

text \<open>JavaScript truthiness of an optional string: absent and \<open>""\<close> are falsy.\<close>

definition truthy :: "string option \<Rightarrow> bool" where
  "truthy v = (case v of None \<Rightarrow> False | Some s \<Rightarrow> s \<noteq> [])"

text \<open>JavaScript truthiness of a JSON value: objects and arrays are truthy, also empty.\<close>

fun js_truthy :: "json \<Rightarrow> bool" where
  "js_truthy JNull = False"
| "js_truthy (JBool b) = b"
| "js_truthy (JNumber n) = (n \<noteq> 0)"
| "js_truthy (JString s) = (s \<noteq> [])"
| "js_truthy (JArray xs) = True"
| "js_truthy (JObject fs) = True"

definition truthy_json :: "json option \<Rightarrow> bool" where
  "truthy_json v = (case v of None \<Rightarrow> False | Some j \<Rightarrow> js_truthy j)"

text \<open>A natural number in a template literal.\<close>

fun decimal :: "nat \<Rightarrow> string" where
  "decimal n =
     (if n < 10 then [char_of (48 + n)]
      else decimal (n div 10) @ [char_of (48 + n mod 10)])"

declare decimal.simps [simp del]

definition response :: "nat \<Rightarrow> string \<Rightarrow> APIGatewayProxyResult" where
  "response code text = \<lparr>statusCode = code, body = text\<rparr>"

subsection \<open>\<open>connect\<close>, \<open>disconnect\<close>, \<open>joinLeague\<close>\<close>

definition connect :: "'b event \<Rightarrow> world \<Rightarrow> APIGatewayProxyResult \<times> world" where
  "connect ev w =
     (response 200 ''Connected'',
      console_log (''WebSocket connected: '' @ requestConnectionId ev) w)"

text \<open>The \<open>try\<close> block of \<open>disconnect\<close> holds comments and the return only.\<close>

definition disconnect :: "'b event \<Rightarrow> world \<Rightarrow> APIGatewayProxyResult \<times> world" where
  "disconnect ev w =
     (response 200 ''Disconnected'',
      console_log (''WebSocket disconnected: '' @ requestConnectionId ev) w)"

definition joinLeague ::
  "env \<Rightarrow> JoinBody event \<Rightarrow> world \<Rightarrow> APIGatewayProxyResult \<times> world" where
  "joinLeague e ev w =
     (case eventBody ev of
        Throws \<Rightarrow>
          (response 500 ''Failed to join league'', console_error ''Error joining league:'' w)
      | Parsed b \<Rightarrow>
          if \<not> truthy (join_leagueId b) \<or> \<not> truthy (join_sessionId b)
          then (response 400 ''leagueId and sessionId are required'', w)
          else
            (case docPut e
                    \<lparr>leagueId = the (join_leagueId b),
                     connectionId = requestConnectionId ev,
                     sessionId = the (join_sessionId b),
                     isCreator = (case join_isCreator b of None \<Rightarrow> False | Some c \<Rightarrow> c),
                     connectedAt = now e\<rparr> w of
               (None, w1) \<Rightarrow>
                 (response 500 ''Failed to join league'',
                  console_error ''Error joining league:'' w1)
             | (Some u, w1) \<Rightarrow>
                 (response 200 ''Joined league'',
                  console_log (''Connection '' @ requestConnectionId ev @ '' joined league ''
                               @ the (join_leagueId b)) w1)))"

subsection \<open>\<open>timerUpdate\<close>\<close>

text \<open>
  The callback mapped over \<open>connections\<close>. Its result is \<open>Some ()\<close> when its promise is
  fulfilled and \<open>None\<close> when it is rejected: the only statement of the callback outside a
  \<open>try\<close> that catches is the \<open>DeleteCommand\<close> in the \<open>catch\<close> clause.
\<close>

definition sendTask ::
  "env \<Rightarrow> string \<Rightarrow> string \<Rightarrow> Message \<Rightarrow> Connection \<Rightarrow> world \<Rightarrow> unit option \<times> world" where
  "sendTask e lid cid message connection w =
     (if connectionId connection = cid then (Some (), w)
      else
        (let w1 = w\<lparr>trace := trace w @ [PostToConnectionCommand (connectionId connection) message]\<rparr>
         in case postOutcome e (connectionId connection) of
              Sent \<Rightarrow> (Some (), w1)
            | SendError status \<Rightarrow>
                if status = Some 410
                then docDelete e lid (connectionId connection)
                       (console_log (''Removing stale connection: '' @ connectionId connection) w1)
                else (Some (),
                      console_error (''Error sending to '' @ connectionId connection @ '':'') w1)))"

text \<open>
  \<open>Promise.all\<close> over the mapped callbacks: fulfilled when every task is, rejected
  otherwise. The tasks run concurrently in the source. The model runs each to its end,
  one after the other in the order of the listing, also when one of them is rejected, so
  the world it returns is the one in which every task has settled. The trace it builds is
  one of the possible interleavings. The table and the result do not depend on the order:
  the tasks delete under their own keys only (lemma \<open>promiseAll_order\<close>).
\<close>

fun promiseAll ::
  "('a \<Rightarrow> world \<Rightarrow> unit option \<times> world) \<Rightarrow> 'a list \<Rightarrow> world \<Rightarrow> unit option \<times> world" where
  "promiseAll task [] w = (Some (), w)"
| "promiseAll task (c # cs) w =
     (case task c w of
        (r, w1) \<Rightarrow>
          (case promiseAll task cs w1 of
             (rs, w2) \<Rightarrow> (if r = None then None else rs, w2)))"

definition timerUpdate ::
  "env \<Rightarrow> TimerUpdateBody event \<Rightarrow> world \<Rightarrow> APIGatewayProxyResult \<times> world" where
  "timerUpdate e ev w =
     (case eventBody ev of
        Throws \<Rightarrow>
          (response 500 ''Failed to broadcast timer update'',
           console_error ''Error broadcasting timer update:'' w)
      | Parsed b \<Rightarrow>
          if \<not> truthy (timer_leagueId b) \<or> \<not> truthy_json (timer_timerState b)
          then (response 400 ''leagueId and timerState are required'', w)
          else
            (case docQuery e (the (timer_leagueId b)) w of
               (None, w1) \<Rightarrow>
                 (response 500 ''Failed to broadcast timer update'',
                  console_error ''Error broadcasting timer update:'' w1)
             | (Some connections, w1) \<Rightarrow>
                 (case find (\<lambda>c. connectionId c = requestConnectionId ev) connections of
                    None \<Rightarrow> (response 403 ''Only the creator can update the timer'', w1)
                  | Some senderConnection \<Rightarrow>
                      if \<not> isCreator senderConnection
                      then (response 403 ''Only the creator can update the timer'', w1)
                      else
                        (case promiseAll
                                (sendTask e (the (timer_leagueId b)) (requestConnectionId ev)
                                   (TimerUpdateMessage (the (timer_timerState b))))
                                connections w1 of
                           (None, w2) \<Rightarrow>
                             (response 500 ''Failed to broadcast timer update'',
                              console_error ''Error broadcasting timer update:'' w2)
                         | (Some u, w2) \<Rightarrow>
                             (response 200 ''Timer update broadcast'',
                              console_log (''Timer update broadcast to ''
                                           @ decimal (length connections - 1) @ '' clients'')
                                w2)))))"

subsection \<open>Vocabulary of the properties\<close>

text \<open>\<open>ListRoom\<close>: the records of a room, as a \<open>QueryCommand\<close> returns them.\<close>

definition listRoom :: "string \<Rightarrow> world \<Rightarrow> Connection list" where
  "listRoom lid w = filter (\<lambda>c. leagueId c = lid) (table w)"

text \<open>The key \<open>(leagueId, connectionId)\<close> identifies an item of the table.\<close>

definition wf_table :: "Connection list \<Rightarrow> bool" where
  "wf_table t = distinct (map (\<lambda>c. (leagueId c, connectionId c)) t)"

text \<open>The transport reports the endpoint permanently gone: status 410.\<close>

definition gone :: "env \<Rightarrow> string \<Rightarrow> bool" where
  "gone e k = (postOutcome e k = SendError (Some 410))"

text \<open>A transient failure: \<open>apiGateway.send\<close> throws anything else.\<close>

definition transient :: "env \<Rightarrow> string \<Rightarrow> bool" where
  "transient e k = (case postOutcome e k of Sent \<Rightarrow> False | SendError s \<Rightarrow> s \<noteq> Some 410)"

text \<open>The endpoints of the delivery attempts in a trace, in order.\<close>

definition posts :: "effect list \<Rightarrow> string list" where
  "posts t = concat (map (\<lambda>x. case x of PostToConnectionCommand k m \<Rightarrow> [k] | _ \<Rightarrow> []) t)"

text \<open>The effects of a call that took the world from \<open>w\<close> to \<open>w'\<close>, and its delivery attempts.\<close>

definition since :: "world \<Rightarrow> world \<Rightarrow> effect list" where
  "since w w' = drop (length (trace w)) (trace w')"

definition attempts :: "world \<Rightarrow> world \<Rightarrow> string list" where
  "attempts w w' = posts (since w w')"

text \<open>The endpoints whose records a fan-out over \<open>cs\<close> deletes.\<close>

definition pruned :: "env \<Rightarrow> string \<Rightarrow> Connection list \<Rightarrow> string set" where
  "pruned e cid cs =
     {k. k \<noteq> cid \<and> k \<in> connectionId ` set cs \<and> gone e k \<and> \<not> deleteFails e k}"

text \<open>A request that passes the validation of \<open>timerUpdate\<close>.\<close>

definition broadcast_request :: "TimerUpdateBody event \<Rightarrow> string \<Rightarrow> json \<Rightarrow> bool" where
  "broadcast_request ev lid ts =
     (eventBody ev = Parsed \<lparr>timer_leagueId = Some lid, timer_timerState = Some ts\<rparr> \<and>
      lid \<noteq> [] \<and> js_truthy ts)"

text \<open>
  The check \<open>!senderConnection?.isCreator\<close> of \<open>timerUpdate\<close> lets the request through.
\<close>

definition authorized :: "string \<Rightarrow> string \<Rightarrow> world \<Rightarrow> bool" where
  "authorized lid cid w =
     (case find (\<lambda>c. connectionId c = cid) (listRoom lid w) of
        None \<Rightarrow> False
      | Some senderConnection \<Rightarrow> isCreator senderConnection)"

text \<open>The room has a record of the endpoint with the creator flag.\<close>

definition creator :: "string \<Rightarrow> string \<Rightarrow> world \<Rightarrow> bool" where
  "creator lid cid w = (\<exists>c \<in> set (listRoom lid w). connectionId c = cid \<and> isCreator c)"

text \<open>The \<open>Promise.all\<close> of \<open>timerUpdate\<close>, after its query.\<close>

definition fanout ::
  "env \<Rightarrow> TimerUpdateBody event \<Rightarrow> string \<Rightarrow> json \<Rightarrow> world \<Rightarrow> unit option \<times> world" where
  "fanout e ev lid ts w =
     promiseAll (sendTask e lid (requestConnectionId ev) (TimerUpdateMessage ts))
       (listRoom lid w) (w\<lparr>trace := trace w @ [QueryCommand lid]\<rparr>)"

text \<open>
  The count \<open>delivered\<close> of the specification: the successful deliveries of a fan-out
  over \<open>cs\<close>. The source keeps no such count.
\<close>

definition spec_delivered :: "env \<Rightarrow> string \<Rightarrow> Connection list \<Rightarrow> nat" where
  "spec_delivered e cid cs =
     length (filter (\<lambda>c. connectionId c \<noteq> cid \<and> postOutcome e (connectionId c) = Sent) cs)"

subsection \<open>Sequences of invocations\<close>

text \<open>A request routed to one of the four handlers, with the environment it runs in.\<close>

datatype invocation =
    Connect "unit event"
  | Disconnect "unit event"
  | JoinLeague env "JoinBody event"
  | TimerUpdate env "TimerUpdateBody event"

fun invoke :: "invocation \<Rightarrow> world \<Rightarrow> APIGatewayProxyResult \<times> world" where
  "invoke (Connect ev) w = connect ev w"
| "invoke (Disconnect ev) w = disconnect ev w"
| "invoke (JoinLeague e ev) w = joinLeague e ev w"
| "invoke (TimerUpdate e ev) w = timerUpdate e ev w"

fun run :: "invocation list \<Rightarrow> world \<Rightarrow> world" where
  "run [] w = w"
| "run (i # is) w = run is (snd (invoke i w))"

text \<open>The invocation is a join of endpoint \<open>k\<close> to room \<open>lid\<close>.\<close>

fun joins :: "string \<Rightarrow> string \<Rightarrow> invocation \<Rightarrow> bool" where
  "joins lid k (JoinLeague e ev) =
     (requestConnectionId ev = k \<and>
      (case eventBody ev of Throws \<Rightarrow> False | Parsed b \<Rightarrow> join_leagueId b = Some lid))"
| "joins lid k i = False"

text \<open>A join request that passes the validation of \<open>joinLeague\<close>.\<close>

definition join_request ::
  "JoinBody event \<Rightarrow> string \<Rightarrow> string \<Rightarrow> string \<Rightarrow> bool option \<Rightarrow> bool" where
  "join_request ev k lid s cr =
     (requestConnectionId ev = k \<and>
      eventBody ev = Parsed \<lparr>join_leagueId = Some lid, join_sessionId = Some s,
                              join_isCreator = cr\<rparr> \<and>
      lid \<noteq> [] \<and> s \<noteq> [])"

text \<open>The table has an item with the key.\<close>

definition has_key :: "string \<Rightarrow> string \<Rightarrow> world \<Rightarrow> bool" where
  "has_key lid k w = (\<exists>c \<in> set (table w). same_key lid k c)"

subsection \<open>The scenario of room \<open>abc123\<close>\<close>

text \<open>
  Room \<open>abc123\<close> with creator \<open>C1\<close> and the endpoints \<open>C2\<close> and \<open>C3\<close>, the timer state
  that \<open>C1\<close> broadcasts, and environments in which every call succeeds, the delivery to
  \<open>C3\<close> reports 410 (with the delete succeeding or failing), or the delivery to \<open>C2\<close>
  fails with another status.
\<close>

definition conn :: "string \<Rightarrow> string \<Rightarrow> bool \<Rightarrow> Connection" where
  "conn k s cr =
     \<lparr>leagueId = ''abc123'', connectionId = k, sessionId = s, isCreator = cr,
      connectedAt = ''2024-01-01T00:00:00.000Z''\<rparr>"

definition room_abc123 :: world where
  "room_abc123 =
     \<lparr>table = [conn ''C1'' ''S1'' True, conn ''C2'' ''S2'' False, conn ''C3'' ''S3'' False],
      trace = []\<rparr>"

definition five_minutes :: json where
  "five_minutes =
     timerStateJson
       \<lparr>timerEndTime = Some 1700000000000, timerRemainingSeconds = 300,
        timerPresetMinutes = 5, timerIsRunning = True\<rparr>"

definition broadcast_by :: "string \<Rightarrow> TimerUpdateBody event" where
  "broadcast_by k =
     \<lparr>requestConnectionId = k,
      eventBody = Parsed \<lparr>timer_leagueId = Some ''abc123'',
                          timer_timerState = Some five_minutes\<rparr>\<rparr>"

text \<open>A broadcast of \<open>k\<close> whose \<open>timerState\<close> is the empty object, and one whose body throws.\<close>

definition empty_payload_by :: "string \<Rightarrow> TimerUpdateBody event" where
  "empty_payload_by k =
     \<lparr>requestConnectionId = k,
      eventBody = Parsed \<lparr>timer_leagueId = Some ''abc123'',
                          timer_timerState = Some (JObject [])\<rparr>\<rparr>"

definition null_body_by :: "string \<Rightarrow> TimerUpdateBody event" where
  "null_body_by k = \<lparr>requestConnectionId = k, eventBody = Throws\<rparr>"

definition healthy :: env where
  "healthy =
     \<lparr>postOutcome = (\<lambda>k. Sent), queryFails = False, putFails = False,
      deleteFails = (\<lambda>k. False), now = ''2024-01-01T00:05:00.000Z''\<rparr>"

definition c3_gone :: env where
  "c3_gone = healthy\<lparr>postOutcome := (\<lambda>k. if k = ''C3'' then SendError (Some 410) else Sent)\<rparr>"

definition c3_gone_delete_fails :: env where
  "c3_gone_delete_fails = c3_gone\<lparr>deleteFails := (\<lambda>k. True)\<rparr>"

definition c2_transient :: env where
  "c2_transient =
     healthy\<lparr>postOutcome := (\<lambda>k. if k = ''C2'' then SendError (Some 504) else Sent)\<rparr>"

definition join_by :: "string \<Rightarrow> string \<Rightarrow> bool option \<Rightarrow> JoinBody event" where
  "join_by k s cr =
     \<lparr>requestConnectionId = k,
      eventBody = Parsed \<lparr>join_leagueId = Some ''abc123'', join_sessionId = Some s,
                          join_isCreator = cr\<rparr>\<rparr>"

text \<open>The \<open>$disconnect\<close> event of endpoint \<open>C2\<close>; it has no body to look at.\<close>

definition c2_closes :: "unit event" where
  "c2_closes = \<lparr>requestConnectionId = ''C2'', eventBody = Parsed ()\<rparr>"

section \<open>Lemmas\<close>

subsection \<open>The fan-out\<close>

lemma posts_append [simp]: "posts (s @ t) = posts s @ posts t"
  by (simp add: posts_def)

lemma posts_simps [simp]:
  "posts [] = []"
  "posts (PostToConnectionCommand c m # t) = c # posts t"
  "posts (QueryCommand l # t) = posts t"
  "posts (PutCommand i # t) = posts t"
  "posts (DeleteCommand l k # t) = posts t"
  "posts (ConsoleLog s # t) = posts t"
  "posts (ConsoleError s # t) = posts t"
  by (simp_all add: posts_def)

lemma sendTask_trace:
  "\<exists>t. trace (snd (sendTask e lid cid m c w)) = trace w @ t \<and>
       posts t = (if connectionId c = cid then [] else [connectionId c])"
  by (simp add: sendTask_def docDelete_def console_log_def console_error_def Let_def
           split: send_result.split)

lemma sendTask_table:
  "table (snd (sendTask e lid cid m c w)) =
     (if connectionId c \<noteq> cid \<and> gone e (connectionId c) \<and> \<not> deleteFails e (connectionId c)
      then filter (\<lambda>x. \<not> same_key lid (connectionId c) x) (table w) else table w)"
  by (simp add: sendTask_def docDelete_def console_log_def console_error_def Let_def gone_def
           split: send_result.split)

lemma sendTask_result:
  "fst (sendTask e lid cid m c w) = None \<longleftrightarrow>
     connectionId c \<noteq> cid \<and> gone e (connectionId c) \<and> deleteFails e (connectionId c)"
  by (simp add: sendTask_def docDelete_def console_log_def console_error_def Let_def gone_def
           split: send_result.split)

lemma promiseAll_snd_Cons:
  "snd (promiseAll task (c # cs) w) = snd (promiseAll task cs (snd (task c w)))"
  by (simp split: prod.split)

lemma promiseAll_fst_Cons:
  "fst (promiseAll task (c # cs) w) =
     (if fst (task c w) = None then None else fst (promiseAll task cs (snd (task c w))))"
  by (simp split: prod.split)

lemma promiseAll_trace:
  "\<exists>t. trace (snd (promiseAll (sendTask e lid cid m) cs w)) = trace w @ t \<and>
       posts t = map connectionId (filter (\<lambda>c. connectionId c \<noteq> cid) cs)"
proof (induction cs arbitrary: w)
  case Nil
  show ?case by simp
next
  case (Cons c cs)
  define w1 where "w1 = snd (sendTask e lid cid m c w)"
  obtain t1 where t1: "trace w1 = trace w @ t1"
      "posts t1 = (if connectionId c = cid then [] else [connectionId c])"
    using sendTask_trace [of e lid cid m c w] unfolding w1_def by blast
  obtain t2 where t2: "trace (snd (promiseAll (sendTask e lid cid m) cs w1)) = trace w1 @ t2"
      "posts t2 = map connectionId (filter (\<lambda>c. connectionId c \<noteq> cid) cs)"
    using Cons.IH [of w1] by blast
  have "trace (snd (promiseAll (sendTask e lid cid m) (c # cs) w)) = trace w @ (t1 @ t2)"
    unfolding promiseAll_snd_Cons using t1 t2 by (simp add: w1_def)
  moreover have "posts (t1 @ t2) = map connectionId (filter (\<lambda>c. connectionId c \<noteq> cid) (c # cs))"
    using t1 t2 by simp
  ultimately show ?case by blast
qed

lemma promiseAll_table:
  "table (snd (promiseAll (sendTask e lid cid m) cs w)) =
     filter (\<lambda>x. \<not> (leagueId x = lid \<and> connectionId x \<in> pruned e cid cs)) (table w)"
proof (induction cs arbitrary: w)
  case Nil
  show ?case by (simp add: pruned_def)
next
  case (Cons c cs)
  define w1 where "w1 = snd (sendTask e lid cid m c w)"
  have w1: "table w1 =
     (if connectionId c \<noteq> cid \<and> gone e (connectionId c) \<and> \<not> deleteFails e (connectionId c)
      then filter (\<lambda>x. \<not> same_key lid (connectionId c) x) (table w) else table w)"
    unfolding w1_def by (rule sendTask_table)
  have "table (snd (promiseAll (sendTask e lid cid m) (c # cs) w)) =
        table (snd (promiseAll (sendTask e lid cid m) cs w1))"
    unfolding promiseAll_snd_Cons w1_def ..
  also have "\<dots> = filter (\<lambda>x. \<not> (leagueId x = lid \<and> connectionId x \<in> pruned e cid cs)) (table w1)"
    by (rule Cons.IH)
  also have "\<dots> = filter (\<lambda>x. \<not> (leagueId x = lid \<and> connectionId x \<in> pruned e cid (c # cs))) (table w)"
    unfolding w1 by (auto simp: pruned_def same_key_def intro!: filter_cong)
  finally show ?case .
qed

lemma promiseAll_result:
  "fst (promiseAll (sendTask e lid cid m) cs w) = None \<longleftrightarrow>
     (\<exists>c \<in> set cs. connectionId c \<noteq> cid \<and> gone e (connectionId c) \<and> deleteFails e (connectionId c))"
proof (induction cs arbitrary: w)
  case Nil
  show ?case by simp
next
  case (Cons c cs)
  show ?case
    unfolding promiseAll_fst_Cons using Cons.IH [of "snd (sendTask e lid cid m c w)"]
    by (auto simp: sendTask_result)
qed

lemma promiseAll_order:
  assumes "set cs' = set cs"
  shows "table (snd (promiseAll (sendTask e lid cid m) cs' w)) =
         table (snd (promiseAll (sendTask e lid cid m) cs w)) \<and>
         (fst (promiseAll (sendTask e lid cid m) cs' w) = None) =
         (fst (promiseAll (sendTask e lid cid m) cs w) = None)"
proof -
  have "pruned e cid cs' = pruned e cid cs"
    using assms by (simp add: pruned_def)
  then show ?thesis using assms by (simp add: promiseAll_table promiseAll_result)
qed

subsection \<open>The branches of \<open>timerUpdate\<close>\<close>

lemma since_append: "trace w' = trace w @ t \<Longrightarrow> since w w' = t"
  by (simp add: since_def)

lemma timerUpdate_Throws:
  "eventBody ev = Throws \<Longrightarrow>
   timerUpdate e ev w =
     (response 500 ''Failed to broadcast timer update'',
      console_error ''Error broadcasting timer update:'' w)"
  by (simp add: timerUpdate_def)

lemma timerUpdate_invalid:
  "eventBody ev = Parsed b \<Longrightarrow>
   \<not> truthy (timer_leagueId b) \<or> \<not> truthy_json (timer_timerState b) \<Longrightarrow>
   timerUpdate e ev w = (response 400 ''leagueId and timerState are required'', w)"
  by (auto simp: timerUpdate_def)

lemma timerUpdate_queryFails:
  "broadcast_request ev lid ts \<Longrightarrow> queryFails e \<Longrightarrow>
   timerUpdate e ev w =
     (response 500 ''Failed to broadcast timer update'',
      console_error ''Error broadcasting timer update:'' (w\<lparr>trace := trace w @ [QueryCommand lid]\<rparr>))"
  by (simp add: timerUpdate_def broadcast_request_def truthy_def truthy_json_def docQuery_def)

lemma timerUpdate_forbidden:
  assumes "broadcast_request ev lid ts" "\<not> queryFails e"
    and "\<not> authorized lid (requestConnectionId ev) w"
  shows "timerUpdate e ev w =
     (response 403 ''Only the creator can update the timer'',
      w\<lparr>trace := trace w @ [QueryCommand lid]\<rparr>)"
  using assms unfolding authorized_def listRoom_def
  by (simp add: timerUpdate_def broadcast_request_def truthy_def truthy_json_def docQuery_def
         split: option.splits)

lemma timerUpdate_creator:
  assumes "broadcast_request ev lid ts" "\<not> queryFails e"
    and "authorized lid (requestConnectionId ev) w"
  shows "timerUpdate e ev w =
     (case fanout e ev lid ts w of
        (None, w2) \<Rightarrow>
          (response 500 ''Failed to broadcast timer update'',
           console_error ''Error broadcasting timer update:'' w2)
      | (Some u, w2) \<Rightarrow>
          (response 200 ''Timer update broadcast'',
           console_log (''Timer update broadcast to ''
                        @ decimal (length (listRoom lid w) - 1) @ '' clients'') w2))"
  using assms unfolding authorized_def listRoom_def fanout_def
  by (simp add: timerUpdate_def broadcast_request_def truthy_def truthy_json_def docQuery_def
         split: option.splits)

lemma fanout_trace:
  "\<exists>t. trace (snd (fanout e ev lid ts w)) = trace w @ QueryCommand lid # t \<and>
       posts t = map connectionId
                   (filter (\<lambda>c. connectionId c \<noteq> requestConnectionId ev) (listRoom lid w))"
  using promiseAll_trace [of e lid "requestConnectionId ev" "TimerUpdateMessage ts"
      "listRoom lid w" "w\<lparr>trace := trace w @ [QueryCommand lid]\<rparr>"]
  by (simp add: fanout_def)

lemma fanout_table:
  "table (snd (fanout e ev lid ts w)) =
     filter (\<lambda>x. \<not> (leagueId x = lid \<and>
                     connectionId x \<in> pruned e (requestConnectionId ev) (listRoom lid w)))
       (table w)"
  by (simp add: fanout_def promiseAll_table)

lemma fanout_result:
  "fst (fanout e ev lid ts w) = None \<longleftrightarrow>
     (\<exists>c \<in> set (listRoom lid w). connectionId c \<noteq> requestConnectionId ev \<and>
        gone e (connectionId c) \<and> deleteFails e (connectionId c))"
  by (simp add: fanout_def promiseAll_result)

subsection \<open>The creator's record\<close>

lemma wf_table_listRoom:
  "wf_table t \<Longrightarrow> distinct (map connectionId (filter (\<lambda>c. leagueId c = lid) t))"
proof (induction t)
  case Nil
  show ?case by simp
next
  case (Cons a t)
  then show ?case by (auto simp: wf_table_def image_iff)
qed

lemma find_unique:
  "distinct (map connectionId cs) \<Longrightarrow> c0 \<in> set cs \<Longrightarrow>
   find (\<lambda>c. connectionId c = connectionId c0) cs = Some c0"
  by (induction cs) (auto simp: image_iff)

lemma length_filter_others:
  "distinct (map connectionId cs) \<Longrightarrow> c0 \<in> set cs \<Longrightarrow>
   length (filter (\<lambda>c. connectionId c \<noteq> connectionId c0) cs) = length cs - 1"
proof (induction cs)
  case Nil
  then show ?case by simp
next
  case (Cons a cs)
  show ?case
  proof (cases "a = c0")
    case True
    have "\<forall>c \<in> set cs. connectionId c \<noteq> connectionId c0"
      using Cons.prems(1) True by (auto simp: image_iff)
    then have "filter (\<lambda>c. connectionId c \<noteq> connectionId c0) cs = cs"
      by (simp add: filter_id_conv)
    then show ?thesis using True by simp
  next
    case False
    then have in_cs: "c0 \<in> set cs" using Cons.prems(2) by simp
    have ne: "connectionId a \<noteq> connectionId c0"
      using Cons.prems(1) in_cs by (auto simp: image_iff)
    have "cs \<noteq> []" using in_cs by auto
    then have "0 < length cs" by simp
    then show ?thesis using Cons.IH Cons.prems(1) in_cs ne by simp
  qed
qed

lemma creator_find:
  assumes "wf_table (table w)" "creator lid cid w"
  shows "\<exists>s. find (\<lambda>c. connectionId c = cid) (listRoom lid w) = Some s \<and> isCreator s
            \<and> s \<in> set (listRoom lid w) \<and> connectionId s = cid"
proof -
  from assms(2) obtain c0 where c0: "c0 \<in> set (listRoom lid w)" "connectionId c0 = cid" "isCreator c0"
    by (auto simp: creator_def)
  have "distinct (map connectionId (listRoom lid w))"
    using assms(1) by (simp add: listRoom_def wf_table_listRoom)
  from find_unique [OF this c0(1)] c0 show ?thesis by auto
qed

lemma creator_authorized:
  "wf_table (table w) \<Longrightarrow> creator lid cid w \<Longrightarrow> authorized lid cid w"
  using creator_find [of w lid cid] by (auto simp: authorized_def)

lemma not_creator_not_authorized:
  "\<forall>c \<in> set (listRoom lid w). connectionId c = cid \<longrightarrow> \<not> isCreator c \<Longrightarrow>
   \<not> authorized lid cid w"
  by (auto simp: authorized_def find_Some_iff split: option.splits)

subsection \<open>A broadcast that passes the checks\<close>

lemma broadcast_table:
  assumes "broadcast_request ev lid ts" "\<not> queryFails e"
    and "authorized lid (requestConnectionId ev) w"
  shows "table (snd (timerUpdate e ev w)) = table (snd (fanout e ev lid ts w))"
  unfolding timerUpdate_creator [OF assms]
  by (simp add: console_log_def console_error_def split: prod.split option.split)

lemma broadcast_result:
  assumes "broadcast_request ev lid ts" "\<not> queryFails e"
    and "authorized lid (requestConnectionId ev) w"
  shows "fst (timerUpdate e ev w) =
     (if fst (fanout e ev lid ts w) = None
      then response 500 ''Failed to broadcast timer update''
      else response 200 ''Timer update broadcast'')"
  unfolding timerUpdate_creator [OF assms]
  by (simp split: prod.split option.split)

lemma broadcast_since:
  assumes "broadcast_request ev lid ts" "\<not> queryFails e"
    and "authorized lid (requestConnectionId ev) w"
  shows "\<exists>t l. since w (snd (timerUpdate e ev w)) = QueryCommand lid # t @ [l] \<and>
           posts [l] = [] \<and>
           posts t = map connectionId
                   (filter (\<lambda>c. connectionId c \<noteq> requestConnectionId ev) (listRoom lid w))"
proof -
  obtain t where t: "trace (snd (fanout e ev lid ts w)) = trace w @ QueryCommand lid # t"
     "posts t = map connectionId
                   (filter (\<lambda>c. connectionId c \<noteq> requestConnectionId ev) (listRoom lid w))"
    using fanout_trace by blast
  obtain r w2 where f: "fanout e ev lid ts w = (r, w2)" by (cases "fanout e ev lid ts w")
  show ?thesis
  proof (cases r)
    case None
    then have "trace (snd (timerUpdate e ev w)) =
        trace w @ (QueryCommand lid # t @ [ConsoleError ''Error broadcasting timer update:''])"
      unfolding timerUpdate_creator [OF assms] using f t by (simp add: console_error_def)
    from since_append [OF this] t(2) show ?thesis by simp
  next
    case (Some u)
    then have "trace (snd (timerUpdate e ev w)) =
        trace w @ (QueryCommand lid # t @ [ConsoleLog (''Timer update broadcast to ''
                        @ decimal (length (listRoom lid w) - 1) @ '' clients'')])"
      unfolding timerUpdate_creator [OF assms] using f t by (simp add: console_log_def)
    from since_append [OF this] t(2) show ?thesis by simp
  qed
qed

lemma broadcast_attempts:
  assumes "broadcast_request ev lid ts" "\<not> queryFails e"
    and "authorized lid (requestConnectionId ev) w"
  shows "attempts w (snd (timerUpdate e ev w)) =
     map connectionId (filter (\<lambda>c. connectionId c \<noteq> requestConnectionId ev) (listRoom lid w))"
proof -
  obtain t l where "since w (snd (timerUpdate e ev w)) = QueryCommand lid # t @ [l]"
     "posts [l] = []"
     "posts t = map connectionId
                   (filter (\<lambda>c. connectionId c \<noteq> requestConnectionId ev) (listRoom lid w))"
    using broadcast_since [OF assms] by blast
  then show ?thesis by (simp add: attempts_def)
qed

subsection \<open>Every call of \<open>timerUpdate\<close>\<close>

lemmas scenario_defs =
  conn_def room_abc123_def five_minutes_def timerStateJson_def broadcast_by_def healthy_def
  c3_gone_def

lemmas eval_defs =
  timerUpdate_def docQuery_def docDelete_def docPut_def sendTask_def console_log_def
  console_error_def truthy_def truthy_json_def response_def same_key_def listRoom_def attempts_def since_def
  wf_table_def creator_def gone_def transient_def broadcast_request_def

lemma broadcast_request_inject:
  "broadcast_request ev lid ts \<Longrightarrow> broadcast_request ev lid' ts' \<Longrightarrow> lid' = lid \<and> ts' = ts"
  by (simp add: broadcast_request_def)

lemma timerUpdate_quiet_or_fanout:
  "(table (snd (timerUpdate e ev w)) = table w \<and> attempts w (snd (timerUpdate e ev w)) = [] \<and>
    statusCode (fst (timerUpdate e ev w)) \<noteq> 200)
   \<or> (\<exists>lid ts. broadcast_request ev lid ts \<and> \<not> queryFails e \<and>
         authorized lid (requestConnectionId ev) w)"
proof (cases "eventBody ev")
  case Throws
  then show ?thesis
    by (simp add: timerUpdate_Throws console_error_def attempts_def since_def response_def)
next
  case (Parsed b)
  show ?thesis
  proof (cases "\<not> truthy (timer_leagueId b) \<or> \<not> truthy_json (timer_timerState b)")
    case True
    with Parsed show ?thesis
      by (simp add: timerUpdate_invalid attempts_def since_def response_def)
  next
    case False
    then obtain lid ts where b: "timer_leagueId b = Some lid" "lid \<noteq> []"
        "timer_timerState b = Some ts" "js_truthy ts"
      by (auto simp: truthy_def truthy_json_def split: option.splits)
    have "b = \<lparr>timer_leagueId = Some lid, timer_timerState = Some ts\<rparr>"
      using b by (cases b) simp
    with Parsed b have req: "broadcast_request ev lid ts"
      by (simp add: broadcast_request_def)
    show ?thesis
    proof (cases "queryFails e")
      case True
      then show ?thesis
        by (simp add: timerUpdate_queryFails [OF req] console_error_def attempts_def since_def
              response_def)
    next
      case qok: False
      show ?thesis
      proof (cases "authorized lid (requestConnectionId ev) w")
        case True
        with req qok show ?thesis by blast
      next
        case False
        then show ?thesis
          by (simp add: timerUpdate_forbidden [OF req qok] attempts_def since_def response_def)
      qed
    qed
  qed
qed

lemma broadcast_table_filter:
  assumes "broadcast_request ev lid ts" "\<not> queryFails e"
    and "authorized lid (requestConnectionId ev) w"
  shows "table (snd (timerUpdate e ev w)) =
     filter (\<lambda>x. \<not> (leagueId x = lid \<and>
                     connectionId x \<in> pruned e (requestConnectionId ev) (listRoom lid w)))
       (table w)"
  by (simp add: broadcast_table [OF assms] fanout_table)

lemma timerUpdate_table_subset:
  "set (table (snd (timerUpdate e ev w))) \<subseteq> set (table w)"
  using timerUpdate_quiet_or_fanout [of e ev w]
  by (auto simp: broadcast_table_filter)

lemma timerUpdate_frame:
  assumes "w' = snd (timerUpdate e ev w)"
  shows "table w' = filter (\<lambda>c. c \<in> set (table w')) (table w) \<and>
         (\<forall>c \<in> set (table w). c \<notin> set (table w') \<longrightarrow>
            gone e (connectionId c) \<and> connectionId c \<noteq> requestConnectionId ev \<and>
            connectionId c \<in> set (attempts w w') \<and>
            (\<exists>ts. broadcast_request ev (leagueId c) ts)) \<and>
         (\<forall>c \<in> set (table w).
            connectionId c = requestConnectionId ev \<or> \<not> gone e (connectionId c) \<longrightarrow>
            c \<in> set (table w'))"
proof -
  consider (quiet) "table w' = table w"
    | (fanout) lid ts where "broadcast_request ev lid ts" "\<not> queryFails e"
        "authorized lid (requestConnectionId ev) w"
    using timerUpdate_quiet_or_fanout [of e ev w] assms by blast
  then show ?thesis
  proof cases
    case quiet
    then show ?thesis by (simp add: filter_id_conv)
  next
    case fanout
    let ?P = "\<lambda>x. \<not> (leagueId x = lid \<and>
                     connectionId x \<in> pruned e (requestConnectionId ev) (listRoom lid w))"
    have t: "table w' = filter ?P (table w)"
      unfolding assms by (rule broadcast_table_filter [OF fanout])
    have a: "attempts w w' = map connectionId
             (filter (\<lambda>c. connectionId c \<noteq> requestConnectionId ev) (listRoom lid w))"
      unfolding assms by (rule broadcast_attempts [OF fanout])
    have 1: "table w' = filter (\<lambda>c. c \<in> set (table w')) (table w)"
      unfolding t by (rule filter_cong) auto
    have 2: "gone e (connectionId c) \<and> connectionId c \<noteq> requestConnectionId ev \<and>
            connectionId c \<in> set (attempts w w') \<and>
            (\<exists>ts. broadcast_request ev (leagueId c) ts)"
      if "c \<in> set (table w)" "c \<notin> set (table w')" for c
    proof -
      from that have l: "leagueId c = lid"
        and p: "connectionId c \<in> pruned e (requestConnectionId ev) (listRoom lid w)"
        unfolding t by auto
      from p have "connectionId c \<in> set (attempts w w')"
        unfolding a by (auto simp: pruned_def)
      with p l fanout(1) show ?thesis by (auto simp: pruned_def)
    qed
    from 1 2 show ?thesis by blast
  qed
qed

lemma timerUpdate_responses:
  "fst (timerUpdate e ev w) = response 200 ''Timer update broadcast'' \<or>
   fst (timerUpdate e ev w) = response 400 ''leagueId and timerState are required'' \<or>
   fst (timerUpdate e ev w) = response 403 ''Only the creator can update the timer'' \<or>
   fst (timerUpdate e ev w) = response 500 ''Failed to broadcast timer update''"
  unfolding timerUpdate_def
  by (simp split: parsed.split option.split prod.split)

lemma pruned_empty:
  "\<forall>c \<in> set cs. connectionId c = cid \<Longrightarrow> pruned e cid cs = {}"
  by (auto simp: pruned_def)

lemma gone_upd_Sent:
  "transient e k \<Longrightarrow> gone (e\<lparr>postOutcome := (postOutcome e)(k := Sent)\<rparr>) = gone e"
  by (rule ext) (auto simp: gone_def transient_def split: send_result.splits)

lemma pruned_cong:
  "gone e' = gone e \<Longrightarrow> deleteFails e' = deleteFails e \<Longrightarrow> pruned e' cid cs = pruned e cid cs"
  by (simp add: pruned_def)

lemma fanout_result_cong:
  "gone e' = gone e \<Longrightarrow> deleteFails e' = deleteFails e \<Longrightarrow>
   (fst (fanout e' ev lid ts w) = None) = (fst (fanout e ev lid ts w) = None)"
  by (simp add: fanout_result)

subsection \<open>\<open>joinLeague\<close> and \<open>disconnect\<close>\<close>

lemma joinLeague_ok:
  assumes "join_request ev k lid s cr" "\<not> putFails e"
  shows "joinLeague e ev w =
     (response 200 ''Joined league'',
      console_log (''Connection '' @ k @ '' joined league '' @ lid)
        (w\<lparr>trace := trace w @
              [PutCommand \<lparr>leagueId = lid, connectionId = k, sessionId = s,
                 isCreator = (case cr of None \<Rightarrow> False | Some c \<Rightarrow> c),
                 connectedAt = now e\<rparr>],
           table := filter (\<lambda>c. \<not> same_key lid k c) (table w) @
              [\<lparr>leagueId = lid, connectionId = k, sessionId = s,
                 isCreator = (case cr of None \<Rightarrow> False | Some c \<Rightarrow> c),
                 connectedAt = now e\<rparr>]\<rparr>))"
  using assms
  by (simp add: joinLeague_def join_request_def truthy_def docPut_def)

lemma joinLeague_table:
  "table (snd (joinLeague e ev w)) = table w \<or>
   (\<exists>b item. eventBody ev = Parsed b \<and> join_leagueId b = Some (leagueId item) \<and>
      connectionId item = requestConnectionId ev \<and>
      table (snd (joinLeague e ev w)) =
        filter (\<lambda>c. \<not> same_key (leagueId item) (connectionId item) c) (table w) @ [item])"
proof (cases "eventBody ev")
  case Throws
  then show ?thesis by (simp add: joinLeague_def console_error_def)
next
  case (Parsed b)
  show ?thesis
  proof (cases "\<not> truthy (join_leagueId b) \<or> \<not> truthy (join_sessionId b) \<or> putFails e")
    case True
    then show ?thesis using Parsed
      by (auto simp: joinLeague_def docPut_def console_error_def)
  next
    case False
    then obtain lid where "join_leagueId b = Some lid"
      by (auto simp: truthy_def split: option.splits)
    with False Parsed show ?thesis
      by (auto simp: joinLeague_def docPut_def console_log_def)
  qed
qed

lemma has_key_joinLeague:
  assumes "has_key lid k w"
  shows "has_key lid k (snd (joinLeague e ev w))"
proof -
  from assms obtain c where c: "c \<in> set (table w)" "same_key lid k c"
    by (auto simp: has_key_def)
  consider (same) "table (snd (joinLeague e ev w)) = table w"
    | (put) item where "table (snd (joinLeague e ev w)) =
        filter (\<lambda>c. \<not> same_key (leagueId item) (connectionId item) c) (table w) @ [item]"
    using joinLeague_table [of e ev w] by blast
  then show ?thesis
  proof cases
    case same
    with c show ?thesis by (auto simp: has_key_def)
  next
    case put
    show ?thesis
    proof (cases "same_key (leagueId item) (connectionId item) c")
      case True
      with c(2) have "same_key lid k item" by (simp add: same_key_def)
      then show ?thesis unfolding has_key_def put by simp
    next
      case False
      with c show ?thesis unfolding has_key_def put by auto
    qed
  qed
qed

lemma disconnect_table: "table (snd (disconnect ev w)) = table w"
  by (simp add: disconnect_def console_log_def)

lemma connect_table: "table (snd (connect ev w)) = table w"
  by (simp add: connect_def console_log_def)

subsection \<open>Unique keys in every reachable table\<close>

lemma wf_table_filter: "wf_table t \<Longrightarrow> wf_table (filter P t)"
  by (simp add: wf_table_def distinct_map_filter)

lemma wf_table_put:
  "wf_table t \<Longrightarrow>
   wf_table (filter (\<lambda>c. \<not> same_key (leagueId item) (connectionId item) c) t @ [item])"
  by (auto simp: wf_table_def distinct_map_filter same_key_def)

lemma wf_table_invoke: "wf_table (table w) \<Longrightarrow> wf_table (table (snd (invoke i w)))"
proof (cases i)
  case (Connect ev)
  then show "wf_table (table w) \<Longrightarrow> ?thesis" by (simp add: connect_table)
next
  case (Disconnect ev)
  then show "wf_table (table w) \<Longrightarrow> ?thesis" by (simp add: disconnect_table)
next
  case (JoinLeague e ev)
  assume wf: "wf_table (table w)"
  consider "table (snd (joinLeague e ev w)) = table w"
    | item where "table (snd (joinLeague e ev w)) =
        filter (\<lambda>c. \<not> same_key (leagueId item) (connectionId item) c) (table w) @ [item]"
    using joinLeague_table [of e ev w] by blast
  then show ?thesis
  proof cases
    case 1
    with wf JoinLeague show ?thesis by simp
  next
    case 2
    with wf_table_put [OF wf, of item] JoinLeague show ?thesis by simp
  qed
next
  case (TimerUpdate e ev)
  assume wf: "wf_table (table w)"
  have "table (snd (timerUpdate e ev w)) = table w \<or>
        (\<exists>P. table (snd (timerUpdate e ev w)) = filter P (table w))"
    using timerUpdate_quiet_or_fanout [of e ev w] broadcast_table_filter [of ev _ _ e w]
    by blast
  with wf TimerUpdate show ?thesis by (auto simp: wf_table_filter)
qed

lemma wf_table_run: "wf_table (table w) \<Longrightarrow> wf_table (table (run is w))"
  by (induction "is" arbitrary: w) (simp_all add: wf_table_invoke)

lemma wf_table_reachable: "wf_table (table (run is \<lparr>table = [], trace = []\<rparr>))"
  by (rule wf_table_run) (simp add: wf_table_def)

subsection \<open>An endpoint stays out of a room until it joins it\<close>

lemma absent_invoke:
  assumes "k \<notin> connectionId ` set (listRoom lid w)" and "\<not> joins lid k i"
  shows "k \<notin> connectionId ` set (listRoom lid (snd (invoke i w)))"
proof (cases i)
  case (Connect ev)
  then show ?thesis using assms(1) by (simp add: listRoom_def connect_table)
next
  case (Disconnect ev)
  then show ?thesis using assms(1) by (simp add: listRoom_def disconnect_table)
next
  case (JoinLeague e ev)
  then show ?thesis
    using joinLeague_table [of e ev w] assms
    by (auto simp: listRoom_def same_key_def)
next
  case (TimerUpdate e ev)
  then show ?thesis
    using timerUpdate_table_subset [of e ev w] assms(1)
    by (auto simp: listRoom_def)
qed

lemma absent_run:
  "k \<notin> connectionId ` set (listRoom lid w) \<Longrightarrow> \<forall>i \<in> set is. \<not> joins lid k i \<Longrightarrow>
   k \<notin> connectionId ` set (listRoom lid (run is w))"
proof (induction "is" arbitrary: w)
  case Nil
  then show ?case by simp
next
  case (Cons i "is")
  have "k \<notin> connectionId ` set (listRoom lid (snd (invoke i w)))"
    using Cons.prems by (simp add: absent_invoke)
  then show ?case using Cons.IH Cons.prems(2) by simp
qed

lemma absent_no_attempt:
  assumes "k \<notin> connectionId ` set (listRoom lid w)" and "broadcast_request ev lid ts"
  shows "k \<notin> set (attempts w (snd (timerUpdate e ev w)))"
proof -
  consider (quiet) "attempts w (snd (timerUpdate e ev w)) = []"
    | (fanout) lid' ts' where "broadcast_request ev lid' ts'" "\<not> queryFails e"
        "authorized lid' (requestConnectionId ev) w"
    using timerUpdate_quiet_or_fanout [of e ev w] by blast
  then show ?thesis
  proof cases
    case quiet
    then show ?thesis by simp
  next
    case fanout
    have "lid' = lid" using broadcast_request_inject [OF assms(2) fanout(1)] by simp
    with fanout assms(1) show ?thesis by (auto simp: broadcast_attempts)
  qed
qed

lemma broadcast_ok:
  assumes "broadcast_request ev lid ts" and "statusCode (fst (timerUpdate e ev w)) = 200"
  shows "\<not> queryFails e \<and> authorized lid (requestConnectionId ev) w \<and>
         fst (fanout e ev lid ts w) \<noteq> None"
proof -
  have q: "\<not> queryFails e"
  proof
    assume "queryFails e"
    from timerUpdate_queryFails [OF assms(1) this, of w] assms(2) show False
      by (simp add: response_def)
  qed
  have a: "authorized lid (requestConnectionId ev) w"
  proof (rule ccontr)
    assume "\<not> authorized lid (requestConnectionId ev) w"
    from timerUpdate_forbidden [OF assms(1) q this] assms(2) show False
      by (simp add: response_def)
  qed
  have "fst (fanout e ev lid ts w) \<noteq> None"
  proof
    assume "fst (fanout e ev lid ts w) = None"
    with broadcast_result [OF assms(1) q a] assms(2) show False
      by (simp add: response_def)
  qed
  with q a show ?thesis by blast
qed

section \<open>Properties\<close>

subsection \<open>C1: the targets of a broadcast\<close>

text \<open>
  C1. When a creator of the room originates a valid broadcast and the store answers the
  query, the endpoints of the delivery attempts are those of the records of the room
  other than the originator's, each once: there are as many as the room has records less
  one, and the originator's endpoint is not among them.
\<close>

theorem creator_broadcast_targets:
  assumes "broadcast_request ev lid ts" and "\<not> queryFails e"
    and "wf_table (table w)" and "creator lid (requestConnectionId ev) w"
  shows "attempts w (snd (timerUpdate e ev w)) =
           map connectionId
             (filter (\<lambda>c. connectionId c \<noteq> requestConnectionId ev) (listRoom lid w)) \<and>
         length (attempts w (snd (timerUpdate e ev w))) = length (listRoom lid w) - 1 \<and>
         distinct (attempts w (snd (timerUpdate e ev w))) \<and>
         requestConnectionId ev \<notin> set (attempts w (snd (timerUpdate e ev w)))"
proof -
  let ?others = "filter (\<lambda>c. connectionId c \<noteq> requestConnectionId ev) (listRoom lid w)"
  have auth: "authorized lid (requestConnectionId ev) w"
    using assms(3,4) by (rule creator_authorized)
  have a: "attempts w (snd (timerUpdate e ev w)) = map connectionId ?others"
    by (rule broadcast_attempts [OF assms(1,2) auth])
  have d: "distinct (map connectionId (listRoom lid w))"
    using assms(3) by (simp add: listRoom_def wf_table_listRoom)
  obtain c0 where c0: "c0 \<in> set (listRoom lid w)" "connectionId c0 = requestConnectionId ev"
    using assms(4) by (auto simp: creator_def)
  have "length ?others = length (listRoom lid w) - 1"
    using length_filter_others [OF d c0(1)] c0(2) by simp
  moreover have "distinct (map connectionId ?others)"
    using d by (simp add: distinct_map_filter)
  moreover have "requestConnectionId ev \<notin> set (map connectionId ?others)"
    by auto
  ultimately show ?thesis using a by simp
qed

theorem creator_broadcast_targets_witness:
  "attempts room_abc123 (snd (timerUpdate c3_gone (broadcast_by ''C1'') room_abc123))
     = [''C2'', ''C3''] \<and>
   length (listRoom ''abc123'' room_abc123) = 3"
proof -
  have h: "broadcast_request (broadcast_by ''C1'') ''abc123'' five_minutes"
      "\<not> queryFails c3_gone" "wf_table (table room_abc123)"
      "creator ''abc123'' (requestConnectionId (broadcast_by ''C1'')) room_abc123"
    by (simp_all add: scenario_defs broadcast_request_def listRoom_def wf_table_def
          creator_def)
  from creator_broadcast_targets [OF h, THEN conjunct1] show ?thesis
    by (simp add: scenario_defs listRoom_def)
qed

subsection \<open>C2: only a creator may broadcast\<close>

text \<open>
  C2. When the store answers the query and the originating endpoint has no record in the
  room, or only records without the creator flag, a valid broadcast request is answered
  with status 403; nothing is posted, the only effect is the query, and the table is
  unchanged.
\<close>

theorem non_creator_broadcast_forbidden:
  assumes "broadcast_request ev lid ts" and "\<not> queryFails e"
    and "\<forall>c \<in> set (listRoom lid w). connectionId c = requestConnectionId ev \<longrightarrow> \<not> isCreator c"
  shows "fst (timerUpdate e ev w) = response 403 ''Only the creator can update the timer'' \<and>
         attempts w (snd (timerUpdate e ev w)) = [] \<and>
         since w (snd (timerUpdate e ev w)) = [QueryCommand lid] \<and>
         table (snd (timerUpdate e ev w)) = table w"
  unfolding timerUpdate_forbidden [OF assms(1,2) not_creator_not_authorized [OF assms(3)]]
  by (simp add: attempts_def since_def)

theorem non_creator_broadcast_forbidden_witness:
  "fst (timerUpdate c3_gone (broadcast_by ''C2'') room_abc123)
     = response 403 ''Only the creator can update the timer'' \<and>
   attempts room_abc123 (snd (timerUpdate c3_gone (broadcast_by ''C2'') room_abc123)) = [] \<and>
   table (snd (timerUpdate c3_gone (broadcast_by ''C2'') room_abc123)) = table room_abc123 \<and>
   fst (timerUpdate c3_gone (broadcast_by ''C9'') room_abc123)
     = response 403 ''Only the creator can update the timer''"
  using non_creator_broadcast_forbidden [of "broadcast_by ''C2''" "''abc123''" five_minutes
      c3_gone room_abc123]
    non_creator_broadcast_forbidden [of "broadcast_by ''C9''" "''abc123''" five_minutes
      c3_gone room_abc123]
  by (simp add: scenario_defs broadcast_request_def listRoom_def)

subsection \<open>C3: pruning of gone endpoints\<close>

text \<open>
  C3 (as the code has it). In a creator-originated broadcast of room \<open>lid\<close> whose query
  the store answers, let the delivery to an endpoint \<open>k\<close> of the room, other than the
  originator, report 410, and let the store accept the delete of every record of the room
  whose delivery reports 410. Then the call is answered with status 200, the delivery to
  \<open>k\<close> was attempted, and the room has no record of \<open>k\<close> when the call returns. It has
  none either after any further invocations of the handlers in which \<open>k\<close> does not join
  the room again, and a broadcast of that room made then has no delivery attempt to \<open>k\<close>.
\<close>

theorem gone_endpoint_pruned:
  assumes "broadcast_request ev lid ts" and "\<not> queryFails e"
    and "wf_table (table w)" and "creator lid (requestConnectionId ev) w"
    and "k \<in> connectionId ` set (listRoom lid w)" and "k \<noteq> requestConnectionId ev"
    and "gone e k"
    and "\<forall>c \<in> set (listRoom lid w). gone e (connectionId c) \<longrightarrow> \<not> deleteFails e (connectionId c)"
    and "w' = snd (timerUpdate e ev w)"
  shows "fst (timerUpdate e ev w) = response 200 ''Timer update broadcast'' \<and>
         k \<in> set (attempts w w') \<and>
         k \<notin> connectionId ` set (listRoom lid w') \<and>
         (\<forall>is e2 ev2 ts2.
            (\<forall>i \<in> set is. \<not> joins lid k i) \<and> broadcast_request ev2 lid ts2 \<longrightarrow>
            k \<notin> connectionId ` set (listRoom lid (run is w')) \<and>
            k \<notin> set (attempts (run is w') (snd (timerUpdate e2 ev2 (run is w')))))"
proof -
  have a: "authorized lid (requestConnectionId ev) w"
    using assms(3,4) by (rule creator_authorized)
  note q = assms(2)
  have r: "fst (fanout e ev lid ts w) \<noteq> None"
    using assms(8) by (auto simp: fanout_result)
  then have ok: "fst (timerUpdate e ev w) = response 200 ''Timer update broadcast''"
    by (simp add: broadcast_result [OF assms(1) q a])
  have att: "k \<in> set (attempts w w')"
    unfolding assms(9) broadcast_attempts [OF assms(1) q a]
    using assms(5,6) by auto
  from assms(5) obtain c where c: "c \<in> set (listRoom lid w)" "connectionId c = k" by auto
  have "\<not> deleteFails e k"
    using assms(7,8) c by auto
  then have p: "k \<in> pruned e (requestConnectionId ev) (listRoom lid w)"
    using assms(5,6,7) by (simp add: pruned_def)
  have out: "k \<notin> connectionId ` set (listRoom lid w')"
    unfolding assms(9) listRoom_def broadcast_table_filter [OF assms(1) q a]
    using p by (auto simp: listRoom_def)
  have "k \<notin> connectionId ` set (listRoom lid (run is w')) \<and>
        k \<notin> set (attempts (run is w') (snd (timerUpdate e2 ev2 (run is w'))))"
    if "\<forall>i \<in> set is. \<not> joins lid k i" "broadcast_request ev2 lid ts2" for "is" e2 ev2 ts2
  proof -
    have "k \<notin> connectionId ` set (listRoom lid (run is w'))"
      using out that(1) by (rule absent_run)
    then show ?thesis using that(2) by (simp add: absent_no_attempt)
  qed
  with ok att out show ?thesis by blast
qed

theorem gone_endpoint_pruned_witness:
  "map connectionId
     (listRoom ''abc123'' (snd (timerUpdate c3_gone (broadcast_by ''C1'') room_abc123)))
     = [''C1'', ''C2''] \<and>
   ''C3'' \<in> set (attempts room_abc123
                   (snd (timerUpdate c3_gone (broadcast_by ''C1'') room_abc123))) \<and>
   ''C3'' \<notin> set (attempts
       (run [JoinLeague healthy (join_by ''C4'' ''S4'' None), Disconnect c2_closes]
          (snd (timerUpdate c3_gone (broadcast_by ''C1'') room_abc123)))
       (snd (timerUpdate healthy (broadcast_by ''C1'')
          (run [JoinLeague healthy (join_by ''C4'' ''S4'' None), Disconnect c2_closes]
             (snd (timerUpdate c3_gone (broadcast_by ''C1'') room_abc123))))))"
proof -
  let ?w' = "snd (timerUpdate c3_gone (broadcast_by ''C1'') room_abc123)"
  let ?is = "[JoinLeague healthy (join_by ''C4'' ''S4'' None), Disconnect c2_closes]"
  have req: "broadcast_request (broadcast_by ''C1'') ''abc123'' five_minutes"
    by (simp add: scenario_defs broadcast_request_def)
  have h: "\<not> queryFails c3_gone" "wf_table (table room_abc123)"
      "creator ''abc123'' (requestConnectionId (broadcast_by ''C1'')) room_abc123"
      "''C3'' \<in> connectionId ` set (listRoom ''abc123'' room_abc123)"
      "''C3'' \<noteq> requestConnectionId (broadcast_by ''C1'')"
      "gone c3_gone ''C3''"
      "\<forall>c \<in> set (listRoom ''abc123'' room_abc123).
         gone c3_gone (connectionId c) \<longrightarrow> \<not> deleteFails c3_gone (connectionId c)"
      "?w' = snd (timerUpdate c3_gone (broadcast_by ''C1'') room_abc123)"
    by (simp_all add: scenario_defs listRoom_def wf_table_def creator_def gone_def)
  have later: "(\<forall>i \<in> set ?is. \<not> joins ''abc123'' ''C3'' i) \<and>
      broadcast_request (broadcast_by ''C1'') ''abc123'' five_minutes"
    using req by (simp add: join_by_def)
  note t = gone_endpoint_pruned [OF req h]
  have "''C3'' \<notin> set (attempts (run ?is ?w')
           (snd (timerUpdate healthy (broadcast_by ''C1'') (run ?is ?w'))))"
    using t later by blast
  moreover have "''C3'' \<in> set (attempts room_abc123 ?w')"
    using t by blast
  moreover have "map connectionId (listRoom ''abc123'' ?w') = [''C1'', ''C2'']"
    by (simp add: scenario_defs eval_defs)
  ultimately show ?thesis by blast
qed

text \<open>
  C3 as stated fails: in room \<open>abc123\<close> the delivery to \<open>C3\<close> reports 410 and the store
  refuses the delete. When the call returns the record of \<open>C3\<close> is still in the listing,
  and the next broadcast of the room attempts a delivery to \<open>C3\<close>.
\<close>

theorem gone_endpoint_counterexample:
  "gone c3_gone_delete_fails ''C3'' \<and>
   ''C3'' \<in> set (attempts room_abc123
       (snd (timerUpdate c3_gone_delete_fails (broadcast_by ''C1'') room_abc123))) \<and>
   listRoom ''abc123'' (snd (timerUpdate c3_gone_delete_fails (broadcast_by ''C1'') room_abc123))
     = [conn ''C1'' ''S1'' True, conn ''C2'' ''S2'' False, conn ''C3'' ''S3'' False] \<and>
   attempts (snd (timerUpdate c3_gone_delete_fails (broadcast_by ''C1'') room_abc123))
     (snd (timerUpdate healthy (broadcast_by ''C1'')
        (snd (timerUpdate c3_gone_delete_fails (broadcast_by ''C1'') room_abc123))))
     = [''C2'', ''C3'']"
  by (simp add: scenario_defs c3_gone_delete_fails_def eval_defs)

subsection \<open>C4: the answer to a broadcast\<close>

text \<open>
  C4 (as the code has it). The answer to a broadcast that succeeds is status 200 with the
  fixed text \<open>Timer update broadcast\<close>: it carries no counts. A broadcast in a room where
  only the creator is connected succeeds, with no delivery attempt and the table unchanged.
\<close>

theorem broadcast_result_fixed:
  "(statusCode (fst (timerUpdate e ev w)) = 200 \<longrightarrow>
      fst (timerUpdate e ev w) = response 200 ''Timer update broadcast'') \<and>
   (broadcast_request ev lid ts \<and> \<not> queryFails e \<and> listRoom lid w = [c] \<and>
    connectionId c = requestConnectionId ev \<and> isCreator c \<longrightarrow>
      fst (timerUpdate e ev w) = response 200 ''Timer update broadcast'' \<and>
      attempts w (snd (timerUpdate e ev w)) = [] \<and>
      table (snd (timerUpdate e ev w)) = table w)"
proof (intro conjI impI)
  assume "statusCode (fst (timerUpdate e ev w)) = 200"
  then show "fst (timerUpdate e ev w) = response 200 ''Timer update broadcast''"
    using timerUpdate_responses [of e ev w] by (auto simp: response_def)
next
  assume a: "broadcast_request ev lid ts \<and> \<not> queryFails e \<and> listRoom lid w = [c] \<and>
    connectionId c = requestConnectionId ev \<and> isCreator c"
  then have auth: "authorized lid (requestConnectionId ev) w"
    by (simp add: authorized_def)
  from a have req: "broadcast_request ev lid ts" and qok: "\<not> queryFails e" by simp_all
  have "fst (fanout e ev lid ts w) \<noteq> None"
    using a by (simp add: fanout_result)
  then show "fst (timerUpdate e ev w) = response 200 ''Timer update broadcast''"
    by (simp add: broadcast_result [OF req qok auth])
  show "attempts w (snd (timerUpdate e ev w)) = []"
    using a by (simp add: broadcast_attempts [OF req qok auth])
  have "pruned e (requestConnectionId ev) (listRoom lid w) = {}"
    using a by (simp add: pruned_empty)
  then show "table (snd (timerUpdate e ev w)) = table w"
    by (simp add: broadcast_table_filter [OF req qok auth])
qed

theorem broadcast_result_fixed_witness:
  "fst (timerUpdate healthy (broadcast_by ''C1'')
          \<lparr>table = [conn ''C1'' ''S1'' True], trace = []\<rparr>)
     = \<lparr>statusCode = 200, body = ''Timer update broadcast''\<rparr> \<and>
   attempts \<lparr>table = [conn ''C1'' ''S1'' True], trace = []\<rparr>
     (snd (timerUpdate healthy (broadcast_by ''C1'')
             \<lparr>table = [conn ''C1'' ''S1'' True], trace = []\<rparr>)) = [] \<and>
   body (fst (timerUpdate c3_gone (broadcast_by ''C1'') room_abc123))
     = ''Timer update broadcast''"
proof -
  let ?w = "\<lparr>table = [conn ''C1'' ''S1'' True], trace = []\<rparr>"
  have "broadcast_request (broadcast_by ''C1'') ''abc123'' five_minutes \<and>
        \<not> queryFails healthy \<and> listRoom ''abc123'' ?w = [conn ''C1'' ''S1'' True] \<and>
        connectionId (conn ''C1'' ''S1'' True) = requestConnectionId (broadcast_by ''C1'') \<and>
        isCreator (conn ''C1'' ''S1'' True)"
    by (simp add: scenario_defs broadcast_request_def listRoom_def)
  with broadcast_result_fixed [of healthy "broadcast_by ''C1''" ?w "''abc123''" five_minutes
      "conn ''C1'' ''S1'' True"]
  have alone: "fst (timerUpdate healthy (broadcast_by ''C1'') ?w)
          = response 200 ''Timer update broadcast'' \<and>
        attempts ?w (snd (timerUpdate healthy (broadcast_by ''C1'') ?w)) = []"
    by blast
  have "statusCode (fst (timerUpdate c3_gone (broadcast_by ''C1'') room_abc123)) = 200"
    by (simp add: scenario_defs eval_defs)
  with broadcast_result_fixed [of c3_gone "broadcast_by ''C1''" room_abc123]
  have "fst (timerUpdate c3_gone (broadcast_by ''C1'') room_abc123)
          = response 200 ''Timer update broadcast''"
    by blast
  with alone show ?thesis by (simp add: response_def)
qed

text \<open>
  C4 as stated fails: two broadcasts in room \<open>abc123\<close>, one with two successful deliveries
  and no record pruned, one with a single successful delivery and the record of \<open>C3\<close>
  pruned, get the same answer, which is the status and the fixed text.
\<close>

theorem broadcast_result_counts_counterexample:
  "spec_delivered healthy ''C1'' (listRoom ''abc123'' room_abc123) = 2 \<and>
   spec_delivered c3_gone ''C1'' (listRoom ''abc123'' room_abc123) = 1 \<and>
   length (listRoom ''abc123'' (snd (timerUpdate healthy (broadcast_by ''C1'') room_abc123)))
     = 3 \<and>
   length (listRoom ''abc123'' (snd (timerUpdate c3_gone (broadcast_by ''C1'') room_abc123)))
     = 2 \<and>
   fst (timerUpdate healthy (broadcast_by ''C1'') room_abc123)
     = \<lparr>statusCode = 200, body = ''Timer update broadcast''\<rparr> \<and>
   fst (timerUpdate c3_gone (broadcast_by ''C1'') room_abc123)
     = \<lparr>statusCode = 200, body = ''Timer update broadcast''\<rparr>"
  by (simp add: scenario_defs eval_defs spec_delivered_def)

subsection \<open>C5: validation\<close>

text \<open>
  C5 (as the code has it). A broadcast request with a parsed (or absent) body whose
  \<open>leagueId\<close> is missing or empty, or whose \<open>timerState\<close> is missing or a falsy value
  (\<open>null\<close>, \<open>false\<close>, \<open>0\<close>, the empty string), is answered with status 400 and leaves the
  whole world as it was: the table is not read or written, nothing is posted, nothing is
  logged. A body that throws in \<open>JSON.parse\<close> or in the destructuring is answered with
  status 500; the only effect is the error log. A \<open>timerState\<close> that is an object or an
  array, also an empty one, passes the validation when the \<open>leagueId\<close> does.
\<close>

theorem timerUpdate_validation:
  "(eventBody ev = Parsed b \<and>
    (timer_leagueId b = None \<or> timer_leagueId b = Some [] \<or>
     timer_timerState b = None \<or> timer_timerState b = Some JNull \<or>
     timer_timerState b = Some (JBool False) \<or> timer_timerState b = Some (JNumber 0) \<or>
     timer_timerState b = Some (JString [])) \<longrightarrow>
      timerUpdate e ev w = (response 400 ''leagueId and timerState are required'', w)) \<and>
   (eventBody ev = Throws \<longrightarrow>
      fst (timerUpdate e ev w) = response 500 ''Failed to broadcast timer update'' \<and>
      table (snd (timerUpdate e ev w)) = table w \<and>
      since w (snd (timerUpdate e ev w)) = [ConsoleError ''Error broadcasting timer update:'']) \<and>
   (eventBody ev = Parsed b \<and> truthy (timer_leagueId b) \<and>
    (timer_timerState b = Some (JObject fs) \<or> timer_timerState b = Some (JArray xs)) \<longrightarrow>
      statusCode (fst (timerUpdate e ev w)) \<noteq> 400)"
proof (intro conjI impI)
  assume a: "eventBody ev = Parsed b \<and>
    (timer_leagueId b = None \<or> timer_leagueId b = Some [] \<or>
     timer_timerState b = None \<or> timer_timerState b = Some JNull \<or>
     timer_timerState b = Some (JBool False) \<or> timer_timerState b = Some (JNumber 0) \<or>
     timer_timerState b = Some (JString []))"
  then have "\<not> truthy (timer_leagueId b) \<or> \<not> truthy_json (timer_timerState b)"
    by (auto simp: truthy_def truthy_json_def)
  with a show "timerUpdate e ev w = (response 400 ''leagueId and timerState are required'', w)"
    by (simp add: timerUpdate_invalid)
next
  assume t: "eventBody ev = Throws"
  show "fst (timerUpdate e ev w) = response 500 ''Failed to broadcast timer update''"
    by (simp add: timerUpdate_Throws [OF t])
  show "table (snd (timerUpdate e ev w)) = table w"
    by (simp add: timerUpdate_Throws [OF t] console_error_def)
  show "since w (snd (timerUpdate e ev w)) = [ConsoleError ''Error broadcasting timer update:'']"
    by (simp add: timerUpdate_Throws [OF t] console_error_def since_def)
next
  assume a: "eventBody ev = Parsed b \<and> truthy (timer_leagueId b) \<and>
    (timer_timerState b = Some (JObject fs) \<or> timer_timerState b = Some (JArray xs))"
  then obtain lid ts where b: "timer_leagueId b = Some lid" "lid \<noteq> []"
      "timer_timerState b = Some ts" "js_truthy ts"
    by (auto simp: truthy_def split: option.splits)
  have "b = \<lparr>timer_leagueId = Some lid, timer_timerState = Some ts\<rparr>"
    using b by (cases b) simp
  with a b have req: "broadcast_request ev lid ts"
    by (simp add: broadcast_request_def)
  show "statusCode (fst (timerUpdate e ev w)) \<noteq> 400"
  proof (cases "queryFails e")
    case True
    then show ?thesis by (simp add: timerUpdate_queryFails [OF req] response_def)
  next
    case qok: False
    show ?thesis
    proof (cases "authorized lid (requestConnectionId ev) w")
      case True
      then show ?thesis by (simp add: broadcast_result [OF req qok] response_def)
    next
      case False
      then show ?thesis by (simp add: timerUpdate_forbidden [OF req qok] response_def)
    qed
  qed
qed

theorem timerUpdate_validation_witness:
  "timerUpdate c3_gone
     \<lparr>requestConnectionId = ''C1'',
      eventBody = Parsed \<lparr>timer_leagueId = Some [], timer_timerState = Some five_minutes\<rparr>\<rparr>
     room_abc123
   = (response 400 ''leagueId and timerState are required'', room_abc123) \<and>
   timerUpdate c3_gone
     \<lparr>requestConnectionId = ''C1'',
      eventBody = Parsed \<lparr>timer_leagueId = Some ''abc123'', timer_timerState = Some JNull\<rparr>\<rparr>
     room_abc123
   = (response 400 ''leagueId and timerState are required'', room_abc123) \<and>
   fst (timerUpdate c3_gone (null_body_by ''C1'') room_abc123)
     = response 500 ''Failed to broadcast timer update'' \<and>
   statusCode (fst (timerUpdate c3_gone (empty_payload_by ''C1'') room_abc123)) \<noteq> 400"
proof -
  let ?b1 = "\<lparr>timer_leagueId = Some [], timer_timerState = Some five_minutes\<rparr>"
  let ?b2 = "\<lparr>timer_leagueId = Some ''abc123'', timer_timerState = Some JNull\<rparr>"
  let ?b3 = "\<lparr>timer_leagueId = Some ''abc123'', timer_timerState = Some (JObject [])\<rparr>"
  have 1: "timerUpdate c3_gone \<lparr>requestConnectionId = ''C1'', eventBody = Parsed ?b1\<rparr>
      room_abc123 = (response 400 ''leagueId and timerState are required'', room_abc123)"
    using timerUpdate_validation
      [of "\<lparr>requestConnectionId = ''C1'', eventBody = Parsed ?b1\<rparr>" ?b1 c3_gone room_abc123]
    by simp
  have 2: "timerUpdate c3_gone \<lparr>requestConnectionId = ''C1'', eventBody = Parsed ?b2\<rparr>
      room_abc123 = (response 400 ''leagueId and timerState are required'', room_abc123)"
    using timerUpdate_validation
      [of "\<lparr>requestConnectionId = ''C1'', eventBody = Parsed ?b2\<rparr>" ?b2 c3_gone room_abc123]
    by simp
  have "eventBody (null_body_by ''C1'') = Throws"
    by (simp add: null_body_by_def)
  with timerUpdate_validation [of "null_body_by ''C1''" _ c3_gone room_abc123]
  have 3: "fst (timerUpdate c3_gone (null_body_by ''C1'') room_abc123)
      = response 500 ''Failed to broadcast timer update''"
    by blast
  have "eventBody (empty_payload_by ''C1'') = Parsed ?b3 \<and> truthy (timer_leagueId ?b3) \<and>
      (timer_timerState ?b3 = Some (JObject []) \<or> timer_timerState ?b3 = Some (JArray []))"
    by (simp add: empty_payload_by_def truthy_def)
  with timerUpdate_validation [of "empty_payload_by ''C1''" ?b3 c3_gone room_abc123 "[]" "[]"]
  have 4: "statusCode (fst (timerUpdate c3_gone (empty_payload_by ''C1'') room_abc123)) \<noteq> 400"
    by blast
  from 1 2 3 4 show ?thesis by blast
qed

text \<open>
  C5 as stated fails: in room \<open>abc123\<close> the request of creator \<open>C1\<close> with the empty object
  as \<open>timerState\<close> is answered with status 200 after deliveries to \<open>C2\<close> and \<open>C3\<close>, and
  the request whose body throws, so that it has no \<open>leagueId\<close>, is answered with status
  500 and an error log.
\<close>

theorem timerUpdate_validation_counterexample:
  "fst (timerUpdate healthy (empty_payload_by ''C1'') room_abc123)
     = \<lparr>statusCode = 200, body = ''Timer update broadcast''\<rparr> \<and>
   attempts room_abc123 (snd (timerUpdate healthy (empty_payload_by ''C1'') room_abc123))
     = [''C2'', ''C3''] \<and>
   timerUpdate healthy (null_body_by ''C1'') room_abc123
     = (\<lparr>statusCode = 500, body = ''Failed to broadcast timer update''\<rparr>,
        \<lparr>table = table room_abc123,
         trace = [ConsoleError ''Error broadcasting timer update:'']\<rparr>)"
  by (simp add: scenario_defs empty_payload_by_def null_body_by_def eval_defs)

subsection \<open>C6: transient delivery failures\<close>

text \<open>
  C6. In a creator-originated broadcast where the delivery to endpoint \<open>k\<close> fails with
  anything but 410: every other endpoint of the room is still a target of a delivery
  attempt; the answer and the table are those of the same broadcast with the delivery to
  \<open>k\<close> successful; the record of \<open>k\<close> stays; and when no prune of a gone endpoint fails,
  the answer is the success answer.
\<close>

theorem transient_failure_absorbed:
  assumes "broadcast_request ev lid ts" and "\<not> queryFails e"
    and "wf_table (table w)" and "creator lid (requestConnectionId ev) w"
    and "c \<in> set (listRoom lid w)" and "connectionId c \<noteq> requestConnectionId ev"
    and "transient e (connectionId c)"
  shows "attempts w (snd (timerUpdate e ev w)) =
           map connectionId
             (filter (\<lambda>x. connectionId x \<noteq> requestConnectionId ev) (listRoom lid w)) \<and>
         fst (timerUpdate e ev w) =
           fst (timerUpdate (e\<lparr>postOutcome := (postOutcome e)(connectionId c := Sent)\<rparr>) ev w) \<and>
         table (snd (timerUpdate e ev w)) =
           table (snd (timerUpdate
             (e\<lparr>postOutcome := (postOutcome e)(connectionId c := Sent)\<rparr>) ev w)) \<and>
         c \<in> set (table (snd (timerUpdate e ev w))) \<and>
         ((\<forall>x \<in> set (listRoom lid w). gone e (connectionId x) \<longrightarrow> \<not> deleteFails e (connectionId x)) \<longrightarrow>
            fst (timerUpdate e ev w) = response 200 ''Timer update broadcast'')"
proof -
  let ?e' = "e\<lparr>postOutcome := (postOutcome e)(connectionId c := Sent)\<rparr>"
  have auth: "authorized lid (requestConnectionId ev) w"
    using assms(3,4) by (rule creator_authorized)
  have qok': "\<not> queryFails ?e'" using assms(2) by simp
  have g: "gone ?e' = gone e" using assms(7) by (rule gone_upd_Sent)
  have d: "deleteFails ?e' = deleteFails e" by simp
  have 1: "attempts w (snd (timerUpdate e ev w)) =
           map connectionId
             (filter (\<lambda>x. connectionId x \<noteq> requestConnectionId ev) (listRoom lid w))"
    by (rule broadcast_attempts [OF assms(1,2) auth])
  have 2: "fst (timerUpdate e ev w) = fst (timerUpdate ?e' ev w)"
    unfolding broadcast_result [OF assms(1,2) auth] broadcast_result [OF assms(1) qok' auth]
    using fanout_result_cong [OF g d] by simp
  have 3: "table (snd (timerUpdate e ev w)) = table (snd (timerUpdate ?e' ev w))"
    unfolding broadcast_table_filter [OF assms(1,2) auth]
      broadcast_table_filter [OF assms(1) qok' auth]
    using pruned_cong [OF g d] by simp
  have "\<not> gone e (connectionId c)"
    using assms(7) by (auto simp: gone_def transient_def)
  then have "connectionId c \<notin> pruned e (requestConnectionId ev) (listRoom lid w)"
    by (simp add: pruned_def)
  then have 4: "c \<in> set (table (snd (timerUpdate e ev w)))"
    unfolding broadcast_table_filter [OF assms(1,2) auth]
    using assms(5) by (simp add: listRoom_def)
  have 5: "fst (timerUpdate e ev w) = response 200 ''Timer update broadcast''"
    if "\<forall>x \<in> set (listRoom lid w). gone e (connectionId x) \<longrightarrow> \<not> deleteFails e (connectionId x)"
  proof -
    from that have "fst (fanout e ev lid ts w) \<noteq> None"
      by (auto simp: fanout_result)
    then show ?thesis by (simp add: broadcast_result [OF assms(1,2) auth])
  qed
  from 1 2 3 4 5 show ?thesis by blast
qed

theorem transient_failure_absorbed_witness:
  "transient c2_transient ''C2'' \<and>
   attempts room_abc123 (snd (timerUpdate c2_transient (broadcast_by ''C1'') room_abc123))
     = [''C2'', ''C3''] \<and>
   fst (timerUpdate c2_transient (broadcast_by ''C1'') room_abc123)
     = \<lparr>statusCode = 200, body = ''Timer update broadcast''\<rparr> \<and>
   conn ''C2'' ''S2'' False
     \<in> set (table (snd (timerUpdate c2_transient (broadcast_by ''C1'') room_abc123)))"
proof -
  have h: "broadcast_request (broadcast_by ''C1'') ''abc123'' five_minutes"
      "\<not> queryFails c2_transient" "wf_table (table room_abc123)"
      "creator ''abc123'' (requestConnectionId (broadcast_by ''C1'')) room_abc123"
      "conn ''C2'' ''S2'' False \<in> set (listRoom ''abc123'' room_abc123)"
      "connectionId (conn ''C2'' ''S2'' False) \<noteq> requestConnectionId (broadcast_by ''C1'')"
      "transient c2_transient (connectionId (conn ''C2'' ''S2'' False))"
    by (simp_all add: scenario_defs c2_transient_def broadcast_request_def listRoom_def
          wf_table_def creator_def transient_def)
  have ok: "\<forall>x \<in> set (listRoom ''abc123'' room_abc123).
      gone c2_transient (connectionId x) \<longrightarrow> \<not> deleteFails c2_transient (connectionId x)"
    by (simp add: scenario_defs c2_transient_def)
  note t = transient_failure_absorbed [OF h]
  have "attempts room_abc123 (snd (timerUpdate c2_transient (broadcast_by ''C1'') room_abc123))
          = [''C2'', ''C3'']"
    using t [THEN conjunct1] by (simp add: scenario_defs listRoom_def)
  moreover have "fst (timerUpdate c2_transient (broadcast_by ''C1'') room_abc123)
          = \<lparr>statusCode = 200, body = ''Timer update broadcast''\<rparr>"
  proof -
    have "fst (timerUpdate c2_transient (broadcast_by ''C1'') room_abc123)
            = response 200 ''Timer update broadcast''"
      using t ok by blast
    then show ?thesis by (simp add: response_def)
  qed
  moreover have "conn ''C2'' ''S2'' False
     \<in> set (table (snd (timerUpdate c2_transient (broadcast_by ''C1'') room_abc123)))"
    using t by blast
  moreover have "transient c2_transient ''C2''"
    using h(7) by (simp add: conn_def)
  ultimately show ?thesis by blast
qed

subsection \<open>C7: a failing prune\<close>

text \<open>
  C7 (as the code has it). When a delivery of a creator-originated broadcast reports 410
  and the delete of that record fails with a store error, the error reaches the
  \<open>catch\<close> of the handler: the last effect is its error log, the answer is status 500,
  and the record stays in the table. Every other endpoint of the room was still a target
  of a delivery attempt.
\<close>

theorem prune_failure_fails_broadcast:
  assumes "broadcast_request ev lid ts" and "\<not> queryFails e"
    and "wf_table (table w)" and "creator lid (requestConnectionId ev) w"
    and "c \<in> set (listRoom lid w)" and "connectionId c \<noteq> requestConnectionId ev"
    and "gone e (connectionId c)" and "deleteFails e (connectionId c)"
  shows "fst (timerUpdate e ev w) = response 500 ''Failed to broadcast timer update'' \<and>
         last (trace (snd (timerUpdate e ev w)))
           = ConsoleError ''Error broadcasting timer update:'' \<and>
         c \<in> set (table (snd (timerUpdate e ev w))) \<and>
         attempts w (snd (timerUpdate e ev w)) =
           map connectionId
             (filter (\<lambda>x. connectionId x \<noteq> requestConnectionId ev) (listRoom lid w))"
proof -
  have auth: "authorized lid (requestConnectionId ev) w"
    using assms(3,4) by (rule creator_authorized)
  have none: "fst (fanout e ev lid ts w) = None"
    using assms(5-8) by (auto simp: fanout_result)
  then have 1: "fst (timerUpdate e ev w) = response 500 ''Failed to broadcast timer update''"
    by (simp add: broadcast_result [OF assms(1,2) auth])
  have 2: "last (trace (snd (timerUpdate e ev w)))
           = ConsoleError ''Error broadcasting timer update:''"
    unfolding timerUpdate_creator [OF assms(1,2) auth] using none
    by (cases "fanout e ev lid ts w") (simp add: console_error_def)
  have "connectionId c \<notin> pruned e (requestConnectionId ev) (listRoom lid w)"
    using assms(8) by (simp add: pruned_def)
  then have 3: "c \<in> set (table (snd (timerUpdate e ev w)))"
    unfolding broadcast_table_filter [OF assms(1,2) auth]
    using assms(5) by (simp add: listRoom_def)
  have 4: "attempts w (snd (timerUpdate e ev w)) =
           map connectionId
             (filter (\<lambda>x. connectionId x \<noteq> requestConnectionId ev) (listRoom lid w))"
    by (rule broadcast_attempts [OF assms(1,2) auth])
  from 1 2 3 4 show ?thesis by blast
qed

theorem prune_failure_fails_broadcast_witness:
  "fst (timerUpdate c3_gone_delete_fails (broadcast_by ''C1'') room_abc123)
     = \<lparr>statusCode = 500, body = ''Failed to broadcast timer update''\<rparr> \<and>
   conn ''C3'' ''S3'' False
     \<in> set (table (snd (timerUpdate c3_gone_delete_fails (broadcast_by ''C1'') room_abc123)))"
proof -
  have h: "broadcast_request (broadcast_by ''C1'') ''abc123'' five_minutes"
      "\<not> queryFails c3_gone_delete_fails" "wf_table (table room_abc123)"
      "creator ''abc123'' (requestConnectionId (broadcast_by ''C1'')) room_abc123"
      "conn ''C3'' ''S3'' False \<in> set (listRoom ''abc123'' room_abc123)"
      "connectionId (conn ''C3'' ''S3'' False) \<noteq> requestConnectionId (broadcast_by ''C1'')"
      "gone c3_gone_delete_fails (connectionId (conn ''C3'' ''S3'' False))"
      "deleteFails c3_gone_delete_fails (connectionId (conn ''C3'' ''S3'' False))"
    by (simp_all add: scenario_defs c3_gone_delete_fails_def broadcast_request_def listRoom_def
          wf_table_def creator_def gone_def)
  note t = prune_failure_fails_broadcast [OF h]
  have "fst (timerUpdate c3_gone_delete_fails (broadcast_by ''C1'') room_abc123)
     = \<lparr>statusCode = 500, body = ''Failed to broadcast timer update''\<rparr>"
    using t [THEN conjunct1] by (simp add: response_def)
  with t show ?thesis by blast
qed

text \<open>
  C7 as stated fails: in room \<open>abc123\<close>, with the delivery to \<open>C3\<close> reporting 410 and the
  delete failing, the broadcast of creator \<open>C1\<close> is answered with status 500.
\<close>

theorem prune_failure_counterexample:
  "gone c3_gone_delete_fails ''C3'' \<and> deleteFails c3_gone_delete_fails ''C3'' \<and>
   creator ''abc123'' ''C1'' room_abc123 \<and>
   statusCode (fst (timerUpdate c3_gone_delete_fails (broadcast_by ''C1'') room_abc123)) = 500 \<and>
   last (trace (snd (timerUpdate c3_gone_delete_fails (broadcast_by ''C1'') room_abc123)))
     = ConsoleError ''Error broadcasting timer update:''"
  by (simp add: scenario_defs c3_gone_delete_fails_def eval_defs)

subsection \<open>C8: disconnect\<close>

text \<open>
  C8 (as the code has it). \<open>disconnect\<close> answers with status 200 and leaves the table as
  it was: the record of the disconnecting endpoint stays in every room it joined. An
  invocation after which a key of the table is no longer there is a \<open>timerUpdate\<close> with a
  delivery attempt to that endpoint reporting 410.
\<close>

theorem disconnect_keeps_registry:
  "fst (disconnect ev w) = response 200 ''Disconnected'' \<and>
   table (snd (disconnect ev w)) = table w \<and>
   listRoom lid (snd (disconnect ev w)) = listRoom lid w \<and>
   (has_key lid k w \<and> \<not> has_key lid k (snd (invoke i w)) \<longrightarrow>
      (\<exists>e ev'. i = TimerUpdate e ev' \<and> gone e k \<and>
         k \<in> set (attempts w (snd (invoke i w)))))"
proof -
  have d: "fst (disconnect ev w) = response 200 ''Disconnected'' \<and>
   table (snd (disconnect ev w)) = table w \<and>
   listRoom lid (snd (disconnect ev w)) = listRoom lid w"
    by (simp add: disconnect_def console_log_def listRoom_def)
  have "\<exists>e ev'. i = TimerUpdate e ev' \<and> gone e k \<and> k \<in> set (attempts w (snd (invoke i w)))"
    if has: "has_key lid k w" and gone: "\<not> has_key lid k (snd (invoke i w))"
  proof (cases i)
    case (Connect ev')
    with has gone show ?thesis by (simp add: has_key_def connect_table)
  next
    case (Disconnect ev')
    with has gone show ?thesis by (simp add: has_key_def disconnect_table)
  next
    case (JoinLeague e ev')
    with has gone has_key_joinLeague [of lid k w e ev'] show ?thesis
      by simp
  next
    case (TimerUpdate e ev')
    from has obtain c where c: "c \<in> set (table w)" "same_key lid k c"
      by (auto simp: has_key_def)
    with gone TimerUpdate have "c \<notin> set (table (snd (timerUpdate e ev' w)))"
      by (auto simp: has_key_def)
    with timerUpdate_frame [of "snd (timerUpdate e ev' w)" e ev' w] c
    have "gone e k \<and> k \<in> set (attempts w (snd (timerUpdate e ev' w)))"
      by (auto simp: same_key_def)
    with TimerUpdate show ?thesis by simp
  qed
  with d show ?thesis by blast
qed

theorem disconnect_keeps_registry_witness:
  "table (snd (disconnect c2_closes room_abc123)) = table room_abc123 \<and>
   statusCode (fst (disconnect c2_closes room_abc123)) = 200 \<and>
   has_key ''abc123'' ''C3'' room_abc123 \<and>
   \<not> has_key ''abc123'' ''C3''
       (snd (invoke (TimerUpdate c3_gone (broadcast_by ''C1'')) room_abc123)) \<and>
   gone c3_gone ''C3''"
proof -
  let ?i = "TimerUpdate c3_gone (broadcast_by ''C1'')"
  note t = disconnect_keeps_registry [of c2_closes room_abc123 "''abc123''" "''C3''" ?i]
  have h: "has_key ''abc123'' ''C3'' room_abc123 \<and>
      \<not> has_key ''abc123'' ''C3'' (snd (invoke ?i room_abc123))"
    by (simp add: scenario_defs eval_defs has_key_def)
  with t have "\<exists>e ev'. ?i = TimerUpdate e ev' \<and> gone e ''C3'' \<and>
      ''C3'' \<in> set (attempts room_abc123 (snd (invoke ?i room_abc123)))"
    by blast
  then have "gone c3_gone ''C3''" by auto
  moreover have "table (snd (disconnect c2_closes room_abc123)) = table room_abc123 \<and>
      statusCode (fst (disconnect c2_closes room_abc123)) = 200"
    using t by (simp add: response_def)
  ultimately show ?thesis using h by blast
qed

text \<open>
  C8 as stated fails: after endpoint \<open>C2\<close> disconnects from room \<open>abc123\<close>, its record is
  still in the listing of the room.
\<close>

theorem disconnect_counterexample:
  "has_key ''abc123'' ''C2'' room_abc123 \<and>
   has_key ''abc123'' ''C2''
     (snd (disconnect c2_closes room_abc123)) \<and>
   listRoom ''abc123''
     (snd (disconnect c2_closes room_abc123))
     = [conn ''C1'' ''S1'' True, conn ''C2'' ''S2'' False, conn ''C3'' ''S3'' False]"
  by (simp add: scenario_defs c2_closes_def disconnect_def console_log_def listRoom_def
        has_key_def same_key_def)

subsection \<open>C9: joining twice\<close>

text \<open>
  C9. Let endpoint \<open>k\<close> join room \<open>lid\<close> twice with valid requests, the store accepting
  both writes. After the second join the room lists as many records as after the first,
  the records of the other endpoints are the same, and the one record of \<open>k\<close> carries
  the session identifier and the creator flag of the second request.
\<close>

theorem joinLeague_idempotent:
  assumes "join_request ev1 k lid s1 cr1" and "join_request ev2 k lid s2 cr2"
    and "\<not> putFails e1" and "\<not> putFails e2"
    and "w1 = snd (joinLeague e1 ev1 w)" and "w2 = snd (joinLeague e2 ev2 w1)"
  shows "length (listRoom lid w2) = length (listRoom lid w1) \<and>
         filter (\<lambda>c. connectionId c \<noteq> k) (listRoom lid w2)
           = filter (\<lambda>c. connectionId c \<noteq> k) (listRoom lid w1) \<and>
         filter (\<lambda>c. connectionId c = k) (listRoom lid w2)
           = [\<lparr>leagueId = lid, connectionId = k, sessionId = s2,
               isCreator = (case cr2 of None \<Rightarrow> False | Some c \<Rightarrow> c),
               connectedAt = now e2\<rparr>] \<and>
         fst (joinLeague e2 ev2 w1) = response 200 ''Joined league''"
proof -
  let ?rest = "filter (\<lambda>c. leagueId c = lid) (filter (\<lambda>c. \<not> same_key lid k c) (table w))"
  let ?i1 = "\<lparr>leagueId = lid, connectionId = k, sessionId = s1,
               isCreator = (case cr1 of None \<Rightarrow> False | Some c \<Rightarrow> c), connectedAt = now e1\<rparr>"
  let ?i2 = "\<lparr>leagueId = lid, connectionId = k, sessionId = s2,
               isCreator = (case cr2 of None \<Rightarrow> False | Some c \<Rightarrow> c), connectedAt = now e2\<rparr>"
  have t1: "table w1 = filter (\<lambda>c. \<not> same_key lid k c) (table w) @ [?i1]"
    unfolding assms(5) joinLeague_ok [OF assms(1,3)] by (simp add: console_log_def)
  have t2: "table w2 = filter (\<lambda>c. \<not> same_key lid k c) (table w1) @ [?i2]"
    unfolding assms(6) joinLeague_ok [OF assms(2,4)] by (simp add: console_log_def)
  have l1: "listRoom lid w1 = ?rest @ [?i1]"
    by (simp add: listRoom_def t1)
  have l2: "listRoom lid w2 = ?rest @ [?i2]"
    by (simp add: listRoom_def t2 t1 same_key_def)
  have "filter (\<lambda>c. connectionId c = k) ?rest = []"
    by (auto simp: filter_empty_conv same_key_def)
  then have 3: "filter (\<lambda>c. connectionId c = k) (listRoom lid w2) = [?i2]"
    unfolding l2 by simp
  have 2: "filter (\<lambda>c. connectionId c \<noteq> k) (listRoom lid w2)
           = filter (\<lambda>c. connectionId c \<noteq> k) (listRoom lid w1)"
    unfolding l1 l2 by simp
  have 1: "length (listRoom lid w2) = length (listRoom lid w1)"
    unfolding l1 l2 by simp
  have 4: "fst (joinLeague e2 ev2 w1) = response 200 ''Joined league''"
    unfolding joinLeague_ok [OF assms(2,4)] by simp
  from 1 2 3 4 show ?thesis by blast
qed

theorem joinLeague_idempotent_witness:
  "map (\<lambda>c. (connectionId c, sessionId c, isCreator c))
     (listRoom ''abc123''
        (snd (joinLeague healthy (join_by ''C2'' ''S9'' (Some True))
           (snd (joinLeague healthy (join_by ''C2'' ''S2'' None) room_abc123)))))
   = [(''C1'', ''S1'', True), (''C3'', ''S3'', False), (''C2'', ''S9'', True)] \<and>
   length (listRoom ''abc123''
        (snd (joinLeague healthy (join_by ''C2'' ''S9'' (Some True))
           (snd (joinLeague healthy (join_by ''C2'' ''S2'' None) room_abc123)))))
   = length (listRoom ''abc123''
        (snd (joinLeague healthy (join_by ''C2'' ''S2'' None) room_abc123)))"
proof -
  let ?w1 = "snd (joinLeague healthy (join_by ''C2'' ''S2'' None) room_abc123)"
  let ?w2 = "snd (joinLeague healthy (join_by ''C2'' ''S9'' (Some True)) ?w1)"
  have h: "join_request (join_by ''C2'' ''S2'' None) ''C2'' ''abc123'' ''S2'' None"
      "join_request (join_by ''C2'' ''S9'' (Some True)) ''C2'' ''abc123'' ''S9'' (Some True)"
      "\<not> putFails healthy" "\<not> putFails healthy"
      "?w1 = snd (joinLeague healthy (join_by ''C2'' ''S2'' None) room_abc123)"
      "?w2 = snd (joinLeague healthy (join_by ''C2'' ''S9'' (Some True)) ?w1)"
    by (simp_all add: join_by_def join_request_def healthy_def)
  note t = joinLeague_idempotent [OF h]
  have "length (listRoom ''abc123'' ?w2) = length (listRoom ''abc123'' ?w1)"
    using t by blast
  moreover have "map (\<lambda>c. (connectionId c, sessionId c, isCreator c)) (listRoom ''abc123'' ?w2)
      = [(''C1'', ''S1'', True), (''C3'', ''S3'', False), (''C2'', ''S9'', True)]"
    by (simp add: scenario_defs join_by_def joinLeague_def docPut_def console_log_def
          truthy_def listRoom_def same_key_def)
  ultimately show ?thesis by blast
qed

subsection \<open>C10: what a broadcast changes\<close>

text \<open>
  C10. Whatever the request and the environment, the table after \<open>timerUpdate\<close> is the
  table before with some records taken out, nothing added and nothing altered. A record
  taken out belongs to the room of the request, is not the originator's, was the target
  of a delivery attempt, and that delivery reported 410. So the originator's record and
  the record of every endpoint whose delivery did not report 410 are still there.
\<close>

theorem broadcast_frame:
  assumes "w' = snd (timerUpdate e ev w)"
  shows "table w' = filter (\<lambda>c. c \<in> set (table w')) (table w) \<and>
         (\<forall>c \<in> set (table w). c \<notin> set (table w') \<longrightarrow>
            gone e (connectionId c) \<and> connectionId c \<noteq> requestConnectionId ev \<and>
            connectionId c \<in> set (attempts w w') \<and>
            (\<exists>ts. broadcast_request ev (leagueId c) ts)) \<and>
         (\<forall>c \<in> set (table w).
            connectionId c = requestConnectionId ev \<or> \<not> gone e (connectionId c) \<longrightarrow>
            c \<in> set (table w'))"
  using assms by (rule timerUpdate_frame)

theorem broadcast_frame_witness:
  "conn ''C3'' ''S3'' False
     \<notin> set (table (snd (timerUpdate c3_gone (broadcast_by ''C1'') room_abc123))) \<and>
   gone c3_gone ''C3'' \<and>
   ''C3'' \<in> set (attempts room_abc123
                   (snd (timerUpdate c3_gone (broadcast_by ''C1'') room_abc123))) \<and>
   conn ''C1'' ''S1'' True
     \<in> set (table (snd (timerUpdate c3_gone (broadcast_by ''C1'') room_abc123))) \<and>
   conn ''C2'' ''S2'' False
     \<in> set (table (snd (timerUpdate c3_gone (broadcast_by ''C1'') room_abc123)))"
proof -
  let ?w' = "snd (timerUpdate c3_gone (broadcast_by ''C1'') room_abc123)"
  note t = broadcast_frame [OF refl, of c3_gone "broadcast_by ''C1''" room_abc123]
  have out: "conn ''C3'' ''S3'' False \<in> set (table room_abc123) \<and>
      conn ''C3'' ''S3'' False \<notin> set (table ?w')"
    by (simp add: scenario_defs eval_defs)
  with t have 1: "gone c3_gone (connectionId (conn ''C3'' ''S3'' False)) \<and>
      connectionId (conn ''C3'' ''S3'' False) \<in> set (attempts room_abc123 ?w')"
    by blast
  have "conn ''C1'' ''S1'' True \<in> set (table room_abc123) \<and>
      connectionId (conn ''C1'' ''S1'' True) = requestConnectionId (broadcast_by ''C1'')"
    by (simp add: scenario_defs)
  with t have 2: "conn ''C1'' ''S1'' True \<in> set (table ?w')" by blast
  have "conn ''C2'' ''S2'' False \<in> set (table room_abc123) \<and>
      \<not> gone c3_gone (connectionId (conn ''C2'' ''S2'' False))"
    by (simp add: scenario_defs gone_def)
  with t have 3: "conn ''C2'' ''S2'' False \<in> set (table ?w')" by blast
  from out 1 2 3 show ?thesis by (simp add: conn_def)
qed

end
